theory Spec2Isabelle
  imports Complex_Main "HOL-Library.Sublist"
begin

section \<open>The peer interface (dsm/epaxos/network/peer.py)\<close>

text \<open>
  The module declares three interface classes whose methods all raise
  NotImplementedError, and the class Channel that inherits from the three.
  A class is modelled by its namespace: the list of its method declarations in
  source order, each with the parameters that follow \<open>self\<close> and their
  annotations.
\<close>

datatype annotation = Int_t | Slot_t | Ballot_t | AbstractCommand_t | List_Slot_t | State_t

type_synonym method_decl = "string \<times> (string \<times> annotation) list"

definition AcceptorInterface :: "method_decl list" where
  "AcceptorInterface =
    [(''pre_accept_request'',
        [(''peer'', Int_t), (''slot'', Slot_t), (''ballot'', Ballot_t),
         (''command'', AbstractCommand_t), (''seq'', Int_t), (''deps'', List_Slot_t)]),
     (''accept_request'',
        [(''peer'', Int_t), (''slot'', Slot_t), (''ballot'', Ballot_t),
         (''command'', AbstractCommand_t), (''seq'', Int_t), (''deps'', List_Slot_t)]),
     (''commit_request'',
        [(''peer'', Int_t), (''slot'', Slot_t), (''ballot'', Ballot_t),
         (''seq'', Int_t), (''command'', AbstractCommand_t), (''deps'', List_Slot_t)]),
     (''prepare_request'',
        [(''peer'', Int_t), (''slot'', Slot_t), (''ballot'', Ballot_t)])]"

definition LeaderInterface :: "method_decl list" where
  "LeaderInterface =
    [(''client_request'',
        [(''client_peer'', Int_t), (''command'', AbstractCommand_t)]),
     (''pre_accept_response_ack'',
        [(''peer'', Int_t), (''slot'', Slot_t), (''ballot'', Ballot_t),
         (''seq'', Int_t), (''deps'', List_Slot_t)]),
     (''pre_accept_response_nack'',
        [(''peer'', Int_t), (''slot'', Slot_t)]),
     (''prepare_response_ack'',
        [(''peer'', Int_t), (''slot'', Slot_t), (''ballot'', Ballot_t),
         (''command'', AbstractCommand_t), (''seq'', Int_t), (''deps'', List_Slot_t),
         (''state'', State_t)]),
     (''prepare_response_nack'',
        [(''peer'', Int_t), (''slot'', Slot_t)])]"

definition ClientInterface :: "method_decl list" where
  "ClientInterface =
    [(''client_response'',
        [(''client_peer'', Int_t), (''command'', AbstractCommand_t)])]"

text \<open>
  \<open>class Channel(AcceptorInterface, ClientInterface, LeaderInterface)\<close> declares
  only \<open>__init__\<close>. Its combined namespace lists its own declarations and then
  those of its bases in the order of the class statement, which is the order in
  which Python resolves an attribute.
\<close>

definition Channel :: "method_decl list" where
  "Channel = [(''__init__'', [])] @ AcceptorInterface @ ClientInterface @ LeaderInterface"

text \<open>The parameter names of every declaration of a method name in Channel.\<close>

definition handlers :: "string \<Rightarrow> string list list" where
  "handlers name = map (\<lambda>m. map fst (snd m)) (filter (\<lambda>m. fst m = name) Channel)"

text \<open>The names of the handler methods: everything Channel declares but its constructor.\<close>

definition handler_names :: "string list" where
  "handler_names = filter (\<lambda>n. n \<noteq> ''__init__'') (map fst Channel)"

subsection \<open>The message table of the specification\<close>

datatype kind =
    ClientRequest | ClientResponse
  | PreAcceptRequest | PreAcceptAck | PreAcceptNack
  | AcceptRequest | AcceptAck | AcceptNack
  | CommitRequest
  | PrepareRequest | PrepareAck | PrepareNack

text \<open>
  The fields of each kind, as the table of section 6 lists them. The row
  "AcceptAck / AcceptNack: slot[, ballot]" is read like the PreAccept replies:
  the acknowledgement carries the ballot, the refusal does not.
\<close>

fun spec_fields :: "kind \<Rightarrow> string list" where
  "spec_fields ClientRequest = [''client_peer_id'', ''command'']"
| "spec_fields ClientResponse = [''client_peer_id'', ''command'']"
| "spec_fields PreAcceptRequest = [''slot'', ''ballot'', ''command'', ''seq'', ''deps'']"
| "spec_fields PreAcceptAck = [''slot'', ''ballot'', ''seq'', ''deps'']"
| "spec_fields PreAcceptNack = [''slot'']"
| "spec_fields AcceptRequest = [''slot'', ''ballot'', ''command'', ''seq'', ''deps'']"
| "spec_fields AcceptAck = [''slot'', ''ballot'']"
| "spec_fields AcceptNack = [''slot'']"
| "spec_fields CommitRequest = [''slot'', ''ballot'', ''seq'', ''command'', ''deps'']"
| "spec_fields PrepareRequest = [''slot'', ''ballot'']"
| "spec_fields PrepareAck = [''slot'', ''ballot'', ''command'', ''seq'', ''deps'', ''state'']"
| "spec_fields PrepareNack = [''slot'']"

text \<open>
  The method that handles a kind, by the naming scheme of the interface:
  requests are \<open>x_request\<close>, replies are \<open>x_response_ack\<close> and
  \<open>x_response_nack\<close>.
\<close>

fun handler_name :: "kind \<Rightarrow> string" where
  "handler_name ClientRequest = ''client_request''"
| "handler_name ClientResponse = ''client_response''"
| "handler_name PreAcceptRequest = ''pre_accept_request''"
| "handler_name PreAcceptAck = ''pre_accept_response_ack''"
| "handler_name PreAcceptNack = ''pre_accept_response_nack''"
| "handler_name AcceptRequest = ''accept_request''"
| "handler_name AcceptAck = ''accept_response_ack''"
| "handler_name AcceptNack = ''accept_response_nack''"
| "handler_name CommitRequest = ''commit_request''"
| "handler_name PrepareRequest = ''prepare_request''"
| "handler_name PrepareAck = ''prepare_response_ack''"
| "handler_name PrepareNack = ''prepare_response_nack''"

text \<open>
  What a handler's parameter list has to be for the fields of the table: the
  client messages name their peer \<open>client_peer\<close> where the table says
  \<open>client_peer_id\<close>; every other handler takes the peer the message came from
  as \<open>peer\<close>, followed by the fields.
\<close>

definition expected_params :: "kind \<Rightarrow> string list" where
  "expected_params k =
     (case spec_fields k of
        [] \<Rightarrow> [''peer'']
      | f # fs \<Rightarrow> if f = ''client_peer_id'' then ''client_peer'' # fs else ''peer'' # f # fs)"

text \<open>The kinds whose handler Channel declares, in the order of its namespace.\<close>

definition handled_kinds :: "kind list" where
  "handled_kinds =
     [PreAcceptRequest, AcceptRequest, CommitRequest, PrepareRequest, ClientResponse,
      ClientRequest, PreAcceptAck, PreAcceptNack, PrepareAck, PrepareNack]"

section \<open>The ZeroMQ binding (dsm/epaxos/network/zeromq/impl.py)\<close>

text \<open>
  Packets and frames are byte strings. An exception is a value: a method
  returns \<open>Inl\<close> of the exception it raises, or \<open>Inr\<close> of its result.
  \<open>AssertionError\<close> is the failure of the \<open>assert\<close> statement of
  \<open>ReplicaClient.request\<close>, the only one in the module. \<open>Foreign x\<close> is
  an exception of class \<open>x\<close> raised inside code that the module calls but
  does not contain (the replica, the channels, \<open>deserialize\<close>).
\<close>

type_synonym bytes = string

datatype error =
    ZMQError | KeyError | IndexError | ValueError | ZeroDivisionError
  | AttributeError | AssertionError | Foreign string

text \<open>\<open>class ReplicaAddress(NamedTuple)\<close>, with its one field.\<close>

datatype ReplicaAddress = ReplicaAddress (replica_addr: string)

subsection \<open>ReplicaClient\<close>

text \<open>
  The calls a client makes on its socket and its send channel, in the order it
  makes them. \<open>ClientRequestCall ch r c\<close> is
  \<open>channel.client_request(r, c)\<close> on the channel object number \<open>ch\<close>;
  \<open>PollCall t\<close> is \<open>poller.poll(t)\<close>.
\<close>

datatype 'c client_call =
    SocketConnect string
  | SocketDisconnect string
  | ClientRequestCall nat "int option" 'c
  | PollCall int
  | RecvMultipart

text \<open>
  The attributes of a ReplicaClient. The dictionary \<open>peer_addr\<close> is an
  association list in insertion order. A channel object is identified by its
  creation number, so that two objects built by two calls of
  \<open>ZMQClientSendChannel(self)\<close> differ. The DEALER socket is modelled by its
  identity (the peer id, which the source sets as a decimal string), the
  endpoints it is connected to, and the log of calls.
\<close>

record 'c ReplicaClient =
  peer_id :: int
  peer_addr :: "(int \<times> ReplicaAddress) list"
  replica_id :: "int option"
  channel :: "nat option"
  channels_made :: nat
  identity :: int
  endpoints :: "string list"
  calls :: "'c client_call list"

definition ReplicaClient_init :: "int \<Rightarrow> (int \<times> ReplicaAddress) list \<Rightarrow> 'c ReplicaClient" where
  "ReplicaClient_init p addrs =
     \<lparr>peer_id = p, peer_addr = addrs, replica_id = None, channel = None,
      channels_made = 0, identity = p, endpoints = [], calls = []\<rparr>"

text \<open>
  \<open>random.choice(xs)\<close> raises IndexError on an empty list and otherwise
  returns an element at an index the generator picks; the pick is the
  parameter \<open>rnd\<close>.
\<close>

definition random_choice :: "nat \<Rightarrow> 'a list \<Rightarrow> error + 'a" where
  "random_choice rnd xs = (if xs = [] then Inl IndexError else Inr (xs ! (rnd mod length xs)))"

text \<open>
  \<open>socket.disconnect(addr)\<close> fails in ZeroMQ when the socket is not connected
  to the endpoint; \<open>socket.connect(addr)\<close> adds the endpoint.
\<close>

definition socket_disconnect :: "string \<Rightarrow> 'c ReplicaClient \<Rightarrow> error + 'c ReplicaClient" where
  "socket_disconnect addr self =
     (if addr \<in> set (endpoints self)
      then Inr (self\<lparr>endpoints := remove1 addr (endpoints self),
                     calls := calls self @ [SocketDisconnect addr]\<rparr>)
      else Inl ZMQError)"

definition socket_connect :: "string \<Rightarrow> 'c ReplicaClient \<Rightarrow> 'c ReplicaClient" where
  "socket_connect addr self =
     self\<lparr>endpoints := endpoints self @ [addr], calls := calls self @ [SocketConnect addr]\<rparr>"

text \<open>
  Lines 156-157: \<open>if self.replica_id: self.socket.disconnect(...)\<close>. The test
  is the truth value of the attribute: \<open>None\<close> and \<open>0\<close> are both false.
  The dictionary lookup raises KeyError for a missing key.
\<close>

definition disconnect_previous :: "'c ReplicaClient \<Rightarrow> error + 'c ReplicaClient" where
  "disconnect_previous self =
     (case replica_id self of
        None \<Rightarrow> Inr self
      | Some r \<Rightarrow>
          if r = 0 then Inr self
          else (case map_of (peer_addr self) r of
                  None \<Rightarrow> Inl KeyError
                | Some a \<Rightarrow> socket_disconnect (replica_addr a) self))"

text \<open>
  Lines 153-154: the replica id that \<open>connect\<close> works with is its argument,
  or a random key of \<open>peer_addr\<close> when the argument is \<open>None\<close>.
\<close>

definition chosen_replica :: "int option \<Rightarrow> nat \<Rightarrow> 'c ReplicaClient \<Rightarrow> error + int" where
  "chosen_replica arg rnd self =
     (case arg of None \<Rightarrow> random_choice rnd (map fst (peer_addr self)) | Some r \<Rightarrow> Inr r)"

text \<open>
  \<open>ReplicaClient.connect(replica_id=None)\<close>. The result pairs the outcome
  with the object as the call leaves it: the attributes assigned before an
  exception stay assigned.
\<close>

definition ReplicaClient_connect ::
  "int option \<Rightarrow> nat \<Rightarrow> 'c ReplicaClient \<Rightarrow> (error + unit) \<times> 'c ReplicaClient" where
  "ReplicaClient_connect arg rnd self =
     (case chosen_replica arg rnd self of
        Inl e \<Rightarrow> (Inl e, self)
      | Inr new_id \<Rightarrow>
          (case disconnect_previous self of
             Inl e \<Rightarrow> (Inl e, self)
           | Inr self1 \<Rightarrow>
               (let self2 = self1\<lparr>replica_id := Some new_id,
                                   channel := Some (channels_made self1),
                                   channels_made := Suc (channels_made self1)\<rparr>
                in case map_of (peer_addr self2) new_id of
                     None \<Rightarrow> (Inl KeyError, self2)
                   | Some a \<Rightarrow> (Inr (), socket_connect (replica_addr a) self2))))"

definition TIMEOUT :: int where
  "TIMEOUT = 1000"

text \<open>
  \<open>self.channel.client_request(self.replica_id, command)\<close>. The class of the
  channel is outside the module; the call is recorded with its arguments.
  Without a channel object the attribute access raises AttributeError.
\<close>

definition send_client_request :: "'c \<Rightarrow> 'c ReplicaClient \<Rightarrow> error + 'c ReplicaClient" where
  "send_client_request command self =
     (case channel self of
        None \<Rightarrow> Inl AttributeError
      | Some ch \<Rightarrow> Inr (self\<lparr>calls := calls self @ [ClientRequestCall ch (replica_id self) command]\<rparr>))"

text \<open>
  What one \<open>poller.poll(TIMEOUT)\<close> of the client finds: nothing within the
  window, or the socket readable, with the frames that \<open>recv_multipart\<close> then
  returns.
\<close>

datatype poll_outcome = Timeout | Readable "bytes list"

definition polled :: "'c ReplicaClient \<Rightarrow> 'c ReplicaClient" where
  "polled self = self\<lparr>calls := calls self @ [PollCall TIMEOUT]\<rparr>"

definition received :: "'c ReplicaClient \<Rightarrow> 'c ReplicaClient" where
  "received self = self\<lparr>calls := calls self @ [RecvMultipart]\<rparr>"

text \<open>
  The \<open>while True\<close> loop of \<open>request\<close> (lines 173-187). The network is the
  sequence \<open>polls\<close> of poll outcomes, \<open>i\<close> the number of polls made so far.
  The loop has no bound, so the function is partial: \<open>None\<close> is a run that
  never returns. \<open>payload, = ...\<close> raises ValueError unless the message has
  exactly one frame. \<open>deserialize\<close> is outside the module and is a parameter.
  The two clock readings are \<open>t_start\<close> and \<open>t_end\<close>, in seconds.
\<close>

partial_function (option) request_wait ::
  "(bytes \<Rightarrow> string + 'p) \<Rightarrow> (nat \<Rightarrow> poll_outcome) \<Rightarrow> real \<Rightarrow> real \<Rightarrow> 'c \<Rightarrow> nat \<Rightarrow>
   'c ReplicaClient \<Rightarrow> ((error + real \<times> 'p) \<times> 'c ReplicaClient) option" where
  "request_wait deserialize polls t_start t_end command i self =
     (case polls i of
        Readable frames \<Rightarrow>
          (case frames of
             [payload] \<Rightarrow>
               (case deserialize payload of
                  Inl x \<Rightarrow> Some (Inl (Foreign x), received (polled self))
                | Inr rtn \<Rightarrow> Some (Inr (t_end - t_start, rtn), received (polled self)))
           | _ \<Rightarrow> Some (Inl ValueError, received (polled self)))
      | Timeout \<Rightarrow>
          (case send_client_request command (polled self) of
             Inl e \<Rightarrow> Some (Inl e, polled self)
           | Inr self1 \<Rightarrow> request_wait deserialize polls t_start t_end command (Suc i) self1))"

text \<open>\<open>ReplicaClient.request(command)\<close>.\<close>

definition request ::
  "(bytes \<Rightarrow> string + 'p) \<Rightarrow> (nat \<Rightarrow> poll_outcome) \<Rightarrow> real \<Rightarrow> real \<Rightarrow> 'c \<Rightarrow>
   'c ReplicaClient \<Rightarrow> ((error + real \<times> 'p) \<times> 'c ReplicaClient) option" where
  "request deserialize polls t_start t_end command self =
     (if replica_id self = None then Some (Inl AssertionError, self)
      else case send_client_request command self of
             Inl e \<Rightarrow> Some (Inl e, self)
           | Inr self1 \<Rightarrow> request_wait deserialize polls t_start t_end command 0 self1)"

text \<open>The client after \<open>n\<close> windows without a reply: a poll and a resend for each.\<close>

definition retried :: "nat \<Rightarrow> nat \<Rightarrow> 'c \<Rightarrow> 'c ReplicaClient \<Rightarrow> 'c ReplicaClient" where
  "retried n ch command self =
     self\<lparr>calls := calls self @
        concat (replicate n [PollCall TIMEOUT, ClientRequestCall ch (replica_id self) command])\<rparr>"

text \<open>
  The calls of a request that is answered in its poll number \<open>n\<close>: the first
  send, \<open>n\<close> polls each followed by the same send again, the poll that finds
  the reply, and the receive.
\<close>

definition request_calls :: "nat \<Rightarrow> nat \<Rightarrow> int \<Rightarrow> 'c \<Rightarrow> 'c client_call list" where
  "request_calls n ch rid command =
     ClientRequestCall ch (Some rid) command
       # concat (replicate n [PollCall TIMEOUT, ClientRequestCall ch (Some rid) command])
       @ [PollCall TIMEOUT, RecvMultipart]"

text \<open>The endpoint that \<open>connect\<close> adds for a replica id, if the id has an address.\<close>

definition new_endpoint :: "(int \<times> ReplicaAddress) list \<Rightarrow> int \<Rightarrow> string list" where
  "new_endpoint addrs r = (case map_of addrs r of None \<Rightarrow> [] | Some a \<Rightarrow> [replica_addr a])"

text \<open>The addresses of the five replicas in dsm_tests/epaxos/zeromq.py.\<close>

definition replicas :: "(int \<times> ReplicaAddress) list" where
  "replicas =
     [(1, ReplicaAddress ''tcp://0.0.0.0:60001''),
      (2, ReplicaAddress ''tcp://0.0.0.0:60002''),
      (3, ReplicaAddress ''tcp://0.0.0.0:60003''),
      (4, ReplicaAddress ''tcp://0.0.0.0:60004''),
      (5, ReplicaAddress ''tcp://0.0.0.0:60005'')]"

subsection \<open>ReplicaServer\<close>

text \<open>
  The arguments of the call \<open>ReplicaState(...)\<close> in the constructor (lines
  51-58), by position. The class ReplicaState is outside the module, so the
  fields carry the position and not a parameter name of that class. The first
  argument is the server's own send channel.
\<close>

record ReplicaState_args =
  channel_arg :: unit
  epoch_arg :: int
  replica_id_arg :: int
  peers_arg_4 :: "int set"
  peers_arg_5 :: "int set"
  flag_arg_6 :: bool
  number_arg_7 :: int

text \<open>
  The replica as \<open>main\<close> sees it: the attributes of \<open>self.state\<close> that the
  loop reads, and everything else (instance store, timeouts, dependency store)
  in \<open>rest\<close>. Wall-clock durations are real numbers of seconds.
\<close>

record 'x replica =
  ticks :: int
  seconds_per_tick :: real
  jiffies :: int
  state_replica_id :: int
  rest :: 'x

text \<open>
  The code that the server calls and the module does not contain. Each call
  returns the replica as it leaves it, or \<open>Inl\<close> of the class of the
  exception it raises. \<open>new_replica\<close> stands for the construction of the
  state, the stores and the Replica object from the arguments above;
  \<open>receive_packet\<close> for \<open>channel_receive.receive_packet\<close>; the others
  for the methods of Replica of the same name.
\<close>

record 'x collaborators =
  new_replica :: "ReplicaState_args \<Rightarrow> string + 'x replica"
  check_timeouts_minimum_wait :: "'x replica \<Rightarrow> string + real option \<times> 'x replica"
  tick :: "'x replica \<Rightarrow> string + 'x replica"
  check_timeouts :: "'x replica \<Rightarrow> string + 'x replica"
  receive_packet :: "bytes \<Rightarrow> 'x replica \<Rightarrow> string + 'x replica"
  execute_pending :: "'x replica \<Rightarrow> string + 'x replica"

text \<open>
  The attributes of a ReplicaServer: the dictionary of addresses, the ROUTER
  socket (bound address, identity, the ROUTER_HANDOVER option, connected
  endpoints), the arguments its state was built from, and the replica.
\<close>

record 'x ReplicaServer =
  server_peer_addr :: "(int \<times> ReplicaAddress) list"
  bound :: string
  socket_identity :: int
  router_handover :: int
  connected :: "string list"
  state_args :: ReplicaState_args
  replica :: "'x replica"

text \<open>
  \<open>ReplicaServer.__init__(context, epoch, replica_id, peer_addr)\<close>. The
  ZeroMQ context only creates the socket and is left out. The lookup
  \<open>peer_addr[replica_id]\<close> of line 41 raises KeyError for a missing key.
\<close>

definition ReplicaServer_init ::
  "'x collaborators \<Rightarrow> int \<Rightarrow> int \<Rightarrow> (int \<times> ReplicaAddress) list \<Rightarrow> error + 'x ReplicaServer" where
  "ReplicaServer_init co epoch rid addrs =
     (case map_of addrs rid of
        None \<Rightarrow> Inl KeyError
      | Some a \<Rightarrow>
          (let args = \<lparr>channel_arg = (), epoch_arg = epoch, replica_id_arg = rid,
                       peers_arg_4 = set (map fst addrs), peers_arg_5 = set (map fst addrs),
                       flag_arg_6 = True, number_arg_7 = 5\<rparr>
           in case new_replica co args of
                Inl x \<Rightarrow> Inl (Foreign x)
              | Inr r \<Rightarrow>
                  Inr \<lparr>server_peer_addr = addrs, bound = replica_addr a,
                       socket_identity = rid, router_handover = 1, connected = [],
                       state_args = args, replica = r\<rparr>))"

text \<open>\<open>ReplicaServer.connect()\<close>: connect to every peer but oneself.\<close>

definition ReplicaServer_connect :: "'x ReplicaServer \<Rightarrow> 'x ReplicaServer" where
  "ReplicaServer_connect self =
     self\<lparr>connected := connected self @
        map (\<lambda>(peer_id, addr). replica_addr addr)
          (filter (\<lambda>(peer_id, addr). peer_id \<noteq> state_replica_id (replica self))
             (server_peer_addr self))\<rparr>"

subsection \<open>The event loop\<close>

text \<open>
  What the loop does is observed as a trace of events, one for each call it
  makes: the query \<open>check_timeouts_minimum_wait\<close>, the poll with its
  argument in milliseconds, \<open>tick\<close>, \<open>check_timeouts\<close>, a
  \<open>recv_multipart(flags=zmq.NOBLOCK)\<close> that returns a message, one that
  raises ZMQError because nothing is queued, \<open>receive_packet\<close> with its
  packet, \<open>execute_pending\<close>, the periodic print, and the two calls of
  \<open>replica_server\<close> after the loop has ended.
\<close>

datatype event =
    MinimumWait
  | Poll real
  | Tick
  | CheckTimeouts
  | RecvNoblock "bytes list"
  | RecvWouldBlock
  | ReceivePacket bytes
  | ExecutePending
  | Print
  | LogException error
  | DumpStats

text \<open>
  A computation yields the events up to its end and either the exception that
  ended it or its result. \<open>then_run\<close> sequences two computations: an
  exception in the first skips the second, as in Python.
\<close>

type_synonym 'a run = "event list \<times> (error + 'a)"

definition done_run :: "'a \<Rightarrow> 'a run" where
  "done_run a = ([], Inr a)"

definition call :: "event \<Rightarrow> string + 'a \<Rightarrow> 'a run" where
  "call ev res = ([ev], case res of Inl x \<Rightarrow> Inl (Foreign x) | Inr a \<Rightarrow> Inr a)"

definition then_run :: "'a run \<Rightarrow> ('a \<Rightarrow> 'b run) \<Rightarrow> 'b run" where
  "then_run m f =
     (case m of
        (tr, Inl e) \<Rightarrow> (tr, Inl e)
      | (tr, Inr a) \<Rightarrow> (case f a of (tr', res) \<Rightarrow> (tr @ tr', res)))"

text \<open>The local variables of \<open>main\<close> that live across iterations.\<close>

record main_locals =
  last_tick_time :: real
  poll_delta :: real
  last_tick :: int

text \<open>
  What the outside world contributes to one iteration: whether the poll
  reports the socket readable, the clock readings of lines 92 and 97 (the
  second is read only when the iteration ticks), and the multipart messages
  that the non-blocking receives return before the queue is empty.
\<close>

record iteration_env =
  poll_ready :: bool
  now_after_poll :: real
  now_at_tick :: real
  inbound :: "bytes list list"

text \<open>
  Lines 83-89, the wait in seconds. \<open>if min_wait:\<close> tests the truth value:
  \<open>None\<close> and a wait of zero are both false.
\<close>

definition poll_wait :: "real \<Rightarrow> real \<Rightarrow> real option \<Rightarrow> real" where
  "poll_wait spt delta min_wait =
     (let min_wait_poll = max 0 (spt - delta)
      in case min_wait of
           None \<Rightarrow> min_wait_poll
         | Some w \<Rightarrow> if w \<noteq> 0 then min w min_wait_poll else min_wait_poll)"

text \<open>Lines 94-97. The result is the new \<open>last_tick_time\<close> and the replica.\<close>

definition tick_phase ::
  "'x collaborators \<Rightarrow> main_locals \<Rightarrow> iteration_env \<Rightarrow> 'x replica \<Rightarrow> (real \<times> 'x replica) run" where
  "tick_phase co loc env r =
     (if now_after_poll env - last_tick_time loc > seconds_per_tick r
      then then_run (call Tick (tick co r)) (\<lambda>r1.
           then_run (call CheckTimeouts (check_timeouts co r1)) (\<lambda>r2.
           done_run (now_at_tick env, r2)))
      else done_run (last_tick_time loc, r))"

text \<open>
  Lines 103-109: receive without blocking until ZMQError, appending the last
  frame of each message to \<open>packets\<close>. Indexing \<open>[-1]\<close> raises IndexError
  on a message without frames, and that exception is not caught.
\<close>

fun recv_all :: "bytes list list \<Rightarrow> bytes list \<Rightarrow> (bytes list) run" where
  "recv_all [] packets = ([RecvWouldBlock], Inr packets)"
| "recv_all (frames # queue) packets =
     (if frames = [] then ([RecvNoblock frames], Inl IndexError)
      else then_run ([RecvNoblock frames], Inr ()) (\<lambda>_. recv_all queue (packets @ [last frames])))"

text \<open>Lines 110-111: \<open>for packet in packets: receive_packet(packet)\<close>.\<close>

fun dispatch :: "'x collaborators \<Rightarrow> bytes list \<Rightarrow> 'x replica \<Rightarrow> ('x replica) run" where
  "dispatch co [] r = done_run r"
| "dispatch co (packet # packets) r =
     then_run (call (ReceivePacket packet) (receive_packet co packet r)) (dispatch co packets)"

text \<open>Lines 101-116.\<close>

definition packet_phase :: "'x collaborators \<Rightarrow> iteration_env \<Rightarrow> 'x replica \<Rightarrow> ('x replica) run" where
  "packet_phase co env r =
     (if poll_ready env
      then then_run (recv_all (inbound env) []) (\<lambda>packets.
           then_run (dispatch co packets r) (\<lambda>r1.
           if length packets \<noteq> 0 then call ExecutePending (execute_pending co r1)
           else done_run r1))
      else done_run r)"

text \<open>
  Lines 118-128. \<open>and\<close> evaluates the remainder only when the tick counter
  has moved; the remainder by zero raises ZeroDivisionError. Python's \<open>%\<close>
  on integers and \<open>mod\<close> on \<open>int\<close> both take the sign of the divisor. The
  result is the new \<open>last_tick\<close>.
\<close>

definition print_stats :: "int \<Rightarrow> 'x replica \<Rightarrow> int run" where
  "print_stats lt r =
     (if ticks r \<noteq> lt
      then (if jiffies r * 30 = 0 then ([], Inl ZeroDivisionError)
            else if ticks r mod (jiffies r * 30) = 0 then ([Print], Inr (ticks r))
            else done_run lt)
      else done_run lt)"

text \<open>One pass through the body of \<open>while True\<close> (lines 83-128).\<close>

definition main_iteration ::
  "'x collaborators \<Rightarrow> main_locals \<Rightarrow> 'x replica \<Rightarrow> iteration_env \<Rightarrow> (main_locals \<times> 'x replica) run" where
  "main_iteration co loc r env =
     then_run (call MinimumWait (check_timeouts_minimum_wait co r)) (\<lambda>(min_wait, r1).
     then_run ([Poll (poll_wait (seconds_per_tick r1) (poll_delta loc) min_wait * 1000)], Inr ()) (\<lambda>_.
     then_run (tick_phase co loc env r1) (\<lambda>(ltt, r2).
     then_run (packet_phase co env r2) (\<lambda>r3.
     then_run (print_stats (last_tick loc) r3) (\<lambda>lt.
     done_run (\<lparr>last_tick_time = ltt,
                poll_delta = now_after_poll env - last_tick_time loc,
                last_tick = lt\<rparr>, r3))))))"

text \<open>
  The loop never ends by itself. It is run against the list of what the
  outside world contributes to its successive iterations: either an exception
  ends it, or it is still running when the list is used up.
\<close>

datatype 'x loop_status = StillRunning main_locals "'x replica" | Terminated error

fun main_loop ::
  "'x collaborators \<Rightarrow> iteration_env list \<Rightarrow> main_locals \<Rightarrow> 'x replica \<Rightarrow> event list \<times> 'x loop_status" where
  "main_loop co [] loc r = ([], StillRunning loc r)"
| "main_loop co (env # envs) loc r =
     (case main_iteration co loc r env of
        (tr, Inl e) \<Rightarrow> (tr, Terminated e)
      | (tr, Inr (loc', r')) \<Rightarrow> (case main_loop co envs loc' r' of (tr', st) \<Rightarrow> (tr @ tr', st)))"

text \<open>\<open>ReplicaServer.main()\<close>; \<open>now_start\<close> is the clock reading of line 78.\<close>

definition ReplicaServer_main ::
  "'x collaborators \<Rightarrow> real \<Rightarrow> iteration_env list \<Rightarrow> 'x ReplicaServer \<Rightarrow> event list \<times> 'x loop_status" where
  "ReplicaServer_main co now_start envs self =
     main_loop co envs
       \<lparr>last_tick_time = now_start, poll_delta = 0, last_tick = ticks (replica self)\<rparr>
       (replica self)"

text \<open>
  \<open>replica_server(epoch, replica_id, replicas)\<close>: build the server, connect,
  run \<open>main\<close>; the bare \<open>except\<close> logs whatever was raised and the
  \<open>finally\<close> clause dumps the profile, after which the function returns.
\<close>

datatype process_status = Serving | Returned

definition replica_server ::
  "'x collaborators \<Rightarrow> int \<Rightarrow> int \<Rightarrow> (int \<times> ReplicaAddress) list \<Rightarrow> real \<Rightarrow> iteration_env list \<Rightarrow>
   event list \<times> process_status" where
  "replica_server co epoch rid addrs now_start envs =
     (case ReplicaServer_init co epoch rid addrs of
        Inl e \<Rightarrow> ([LogException e, DumpStats], Returned)
      | Inr rs \<Rightarrow>
          (case ReplicaServer_main co now_start envs (ReplicaServer_connect rs) of
             (tr, Terminated e) \<Rightarrow> (tr @ [LogException e, DumpStats], Returned)
           | (tr, StillRunning loc r) \<Rightarrow> (tr, Serving)))"

subsection \<open>Reading a trace\<close>


text \<open>The packets handed to \<open>receive_packet\<close>, in the order of the calls.\<close>

fun dispatched :: "event list \<Rightarrow> bytes list" where
  "dispatched [] = []"
| "dispatched (ReceivePacket p # tr) = p # dispatched tr"
| "dispatched (_ # tr) = dispatched tr"

text \<open>The messages received from the socket, in the order of the receives.\<close>

fun received_messages :: "event list \<Rightarrow> bytes list list" where
  "received_messages [] = []"
| "received_messages (RecvNoblock frames # tr) = frames # received_messages tr"
| "received_messages (_ # tr) = received_messages tr"

text \<open>The events of lines 94-97 and of lines 101-116 in an iteration that completes.\<close>

definition ticking_trace :: "bool \<Rightarrow> event list" where
  "ticking_trace elapsed = (if elapsed then [Tick, CheckTimeouts] else [])"

definition handling_trace :: "iteration_env \<Rightarrow> event list" where
  "handling_trace env =
     (if poll_ready env
      then map RecvNoblock (inbound env) @ [RecvWouldBlock]
           @ map ReceivePacket (map last (inbound env))
           @ (if inbound env = [] then [] else [ExecutePending])
      else [])"

text \<open>
  The collaborators other than \<open>tick\<close> and \<open>check_timeouts\<close> leave the
  tick counter alone.
\<close>

definition keeps_ticks :: "'x collaborators \<Rightarrow> bool" where
  "keeps_ticks co \<longleftrightarrow>
     (\<forall>r mw r'. check_timeouts_minimum_wait co r = Inr (mw, r') \<longrightarrow> ticks r' = ticks r)
   \<and> (\<forall>p r r'. receive_packet co p r = Inr r' \<longrightarrow> ticks r' = ticks r)
   \<and> (\<forall>r r'. execute_pending co r = Inr r' \<longrightarrow> ticks r' = ticks r)"

subsection \<open>A sample replica\<close>

text \<open>
  Stand-ins for the collaborators, used to run the loop on concrete input: a
  replica that ticks once per second, reports no pending timeout, appends the
  packets it handles to \<open>rest\<close>, and raises on the packet \<open>malformed\<close>.
\<close>

definition sample_collaborators :: "(bytes list) collaborators" where
  "sample_collaborators =
     \<lparr>new_replica = (\<lambda>args. Inr \<lparr>ticks = 0, seconds_per_tick = 1, jiffies = 1,
                                   state_replica_id = replica_id_arg args, rest = []\<rparr>),
      check_timeouts_minimum_wait = (\<lambda>r. Inr (None, r)),
      tick = (\<lambda>r. Inr (r\<lparr>ticks := ticks r + 1\<rparr>)),
      check_timeouts = (\<lambda>r. Inr r),
      receive_packet = (\<lambda>p r. if p = ''malformed'' then Inl ''DecodeError''
                               else Inr (r\<lparr>rest := rest r @ [p]\<rparr>)),
      execute_pending = (\<lambda>r. Inr r)\<rparr>"

definition sample_replica :: "(bytes list) replica" where
  "sample_replica = \<lparr>ticks = 0, seconds_per_tick = 1, jiffies = 1, state_replica_id = 1, rest = []\<rparr>"

definition sample_locals :: main_locals where
  "sample_locals = \<lparr>last_tick_time = 0, poll_delta = 0, last_tick = 0\<rparr>"

text \<open>
  A batch whose second packet makes the sample handler raise, and the input
  of the iteration that would follow.
\<close>

definition env_malformed :: iteration_env where
  "env_malformed =
     \<lparr>poll_ready = True, now_after_poll = 1/2, now_at_tick = 1/2,
      inbound = [[''2'', ''a''], [''3'', ''malformed''], [''2'', ''c'']]\<rparr>"

definition env_later :: iteration_env where
  "env_later =
     \<lparr>poll_ready = True, now_after_poll = 3/4, now_at_tick = 3/4, inbound = [[''2'', ''d'']]\<rparr>"

subsection \<open>The wait of the specification\<close>

text \<open>
  The wait in the words of the specification, to compare with \<open>poll_wait\<close>:
  the minimum of the next timeout and the remaining tick interval, which is
  \<open>seconds_per_tick\<close> minus the time since the last tick and at least zero;
  without a pending timeout, the remaining tick interval alone.
\<close>

definition claimed_wait :: "real \<Rightarrow> real \<Rightarrow> real option \<Rightarrow> real" where
  "claimed_wait spt since_last_tick next_timeout =
     (let tick_interval = max 0 (spt - since_last_tick)
      in case next_timeout of None \<Rightarrow> tick_interval | Some w \<Rightarrow> min w tick_interval)"

section \<open>Properties of the peer interface\<close>

lemma Channel_names:
  "map fst Channel =
     [''__init__'', ''pre_accept_request'', ''accept_request'', ''commit_request'',
      ''prepare_request'', ''client_response'', ''client_request'',
      ''pre_accept_response_ack'', ''pre_accept_response_nack'',
      ''prepare_response_ack'', ''prepare_response_nack'']"
  by (simp add: Channel_def AcceptorInterface_def LeaderInterface_def ClientInterface_def)

lemma handlers_of_kind:
  "handlers (handler_name k) =
     (if k = AcceptAck \<or> k = AcceptNack then [] else [expected_params k])"
  by (cases k)
     (simp_all add: handlers_def expected_params_def Channel_def AcceptorInterface_def
        LeaderInterface_def ClientInterface_def)

text \<open>
  C1. Channel declares exactly one handler, with the parameters of the table in
  the table's order, for ten of the twelve kinds: the CommitRequest handler
  takes (slot, ballot, seq, command, deps), the PreAccept and Accept request
  handlers take (slot, ballot, command, seq, deps). It declares no handler for
  AcceptAck and none for AcceptNack, and every handler it declares belongs to
  one of the other ten kinds, so none is left over for them.
\<close>

theorem Channel_handlers:
  "(\<forall>k. handlers (handler_name k) =
          (if k = AcceptAck \<or> k = AcceptNack then [] else [expected_params k]))
   \<and> handlers (handler_name CommitRequest)
        = [[''peer'', ''slot'', ''ballot'', ''seq'', ''command'', ''deps'']]
   \<and> handlers (handler_name PreAcceptRequest)
        = [[''peer'', ''slot'', ''ballot'', ''command'', ''seq'', ''deps'']]
   \<and> handlers (handler_name AcceptRequest)
        = [[''peer'', ''slot'', ''ballot'', ''command'', ''seq'', ''deps'']]
   \<and> handlers (handler_name AcceptAck) = []
   \<and> handlers (handler_name AcceptNack) = []
   \<and> handler_names = map handler_name handled_kinds
   \<and> AcceptAck \<notin> set handled_kinds \<and> AcceptNack \<notin> set handled_kinds"
proof -
  have names: "handler_names = map handler_name handled_kinds"
    by (simp add: handler_names_def Channel_names handled_kinds_def)
  have absent: "AcceptAck \<notin> set handled_kinds \<and> AcceptNack \<notin> set handled_kinds"
    by (simp add: handled_kinds_def)
  have all: "\<forall>k. handlers (handler_name k) =
          (if k = AcceptAck \<or> k = AcceptNack then [] else [expected_params k])"
    by (simp add: handlers_of_kind del: handler_name.simps)
  have commit: "handlers (handler_name CommitRequest)
        = [[''peer'', ''slot'', ''ballot'', ''seq'', ''command'', ''deps'']]"
    by (simp add: handlers_of_kind expected_params_def del: handler_name.simps)
  have pre_accept: "handlers (handler_name PreAcceptRequest)
        = [[''peer'', ''slot'', ''ballot'', ''command'', ''seq'', ''deps'']]"
    by (simp add: handlers_of_kind expected_params_def del: handler_name.simps)
  have accept: "handlers (handler_name AcceptRequest)
        = [[''peer'', ''slot'', ''ballot'', ''command'', ''seq'', ''deps'']]"
    by (simp add: handlers_of_kind expected_params_def del: handler_name.simps)
  have ack: "handlers (handler_name AcceptAck) = []"
    by (simp add: handlers_of_kind del: handler_name.simps)
  have nack: "handlers (handler_name AcceptNack) = []"
    by (simp add: handlers_of_kind del: handler_name.simps)
  from all commit pre_accept accept ack nack names absent show ?thesis
    by blast
qed

section \<open>Properties of the client\<close>

lemma send_client_request_ok:
  "channel self = Some ch \<Longrightarrow>
   send_client_request command self =
     Inr (self\<lparr>calls := calls self @ [ClientRequestCall ch (replica_id self) command]\<rparr>)"
  by (simp add: send_client_request_def)

lemma retried_0: "retried 0 ch command self = self"
  by (simp add: retried_def)

lemma retried_Suc:
  "retried (Suc n) ch command self =
     retried n ch command
       (self\<lparr>calls := calls self @ [PollCall TIMEOUT, ClientRequestCall ch (replica_id self) command]\<rparr>)"
  by (simp add: retried_def)

lemma retried_fields:
  "channel (retried n ch command self) = channel self"
  "replica_id (retried n ch command self) = replica_id self"
  by (simp_all add: retried_def)

lemma request_wait_timeouts:
  "\<forall>j<n. polls (i + j) = Timeout \<Longrightarrow> channel self = Some ch \<Longrightarrow>
   request_wait deserialize polls t_start t_end command i self =
   request_wait deserialize polls t_start t_end command (i + n) (retried n ch command self)"
proof (induction n arbitrary: i self)
  case 0
  then show ?case by (simp add: retried_0)
next
  case (Suc n)
  from Suc.prems(1) have here: "polls i = Timeout"
    by (metis add.right_neutral zero_less_Suc)
  from Suc.prems(1) have later: "\<forall>j<n. polls (Suc i + j) = Timeout"
    by (metis Suc_less_eq add_Suc_shift)
  let ?self1 = "self\<lparr>calls := calls self @ [PollCall TIMEOUT, ClientRequestCall ch (replica_id self) command]\<rparr>"
  have sent: "send_client_request command (polled self) = Inr ?self1"
    using Suc.prems(2) by (simp add: send_client_request_def polled_def)
  have "request_wait deserialize polls t_start t_end command i self =
        request_wait deserialize polls t_start t_end command (Suc i) ?self1"
    by (subst request_wait.simps) (simp add: here sent)
  also have "\<dots> = request_wait deserialize polls t_start t_end command (Suc i + n)
                     (retried n ch command ?self1)"
    using later Suc.prems(2) by (intro Suc.IH) simp_all
  finally show ?case by (simp add: retried_Suc)
qed

lemma request_wait_needs_reply:
  "request_wait deserialize polls t_start t_end command i self = Some y \<Longrightarrow>
   channel self \<noteq> None \<longrightarrow> (\<exists>n\<ge>i. polls n \<noteq> Timeout)"
proof (induction rule: request_wait.raw_induct [rotated 1, consumes 1, case_names step])
  case (step request_wait deserialize polls t_start t_end command i self y)
  show ?case
  proof (cases "polls i")
    case Timeout
    show ?thesis
    proof
      assume ch: "channel self \<noteq> None"
      then obtain c where c: "channel self = Some c" by auto
      let ?self1 = "polled self\<lparr>calls := calls (polled self) @
                      [ClientRequestCall c (replica_id (polled self)) command]\<rparr>"
      have sent: "send_client_request command (polled self) = Inr ?self1"
        using c by (simp add: send_client_request_def polled_def)
      from step(2) have "request_wait deserialize polls t_start t_end command (Suc i) ?self1 = Some y"
        by (simp add: Timeout sent)
      from step(1)[OF this] c have "\<exists>n\<ge>Suc i. polls n \<noteq> Timeout"
        by (simp add: polled_def)
      then show "\<exists>n\<ge>i. polls n \<noteq> Timeout"
        using Suc_leD by blast
    qed
  next
    case (Readable frames)
    then show ?thesis by (metis order_refl poll_outcome.distinct(1))
  qed
qed

lemma request_wait_no_assertion:
  "request_wait deserialize polls t_start t_end command i self = Some y \<Longrightarrow>
   fst y \<noteq> Inl AssertionError"
proof (induction rule: request_wait.raw_induct [rotated 1, consumes 1, case_names step])
  case (step request_wait deserialize polls t_start t_end command i self y)
  then show ?case
    by (auto split: poll_outcome.splits list.splits sum.splits option.splits
             simp: send_client_request_def)
qed

lemma request_wait_reply:
  "polls i = Readable [payload] \<Longrightarrow> deserialize payload = Inr rtn \<Longrightarrow>
   request_wait deserialize polls t_start t_end command i self =
     Some (Inr (t_end - t_start, rtn), received (polled self))"
  by (subst request_wait.simps) simp


lemma connect_ok:
  assumes "ReplicaClient_connect arg rnd self = (Inr (), self')"
  shows "\<exists>new a. replica_id self' = Some new \<and> map_of (peer_addr self') new = Some a
           \<and> replica_addr a \<in> set (endpoints self')
           \<and> chosen_replica arg rnd self = Inr new"
    and "channel self' = Some (channels_made self)"
    and "channels_made self' = Suc (channels_made self)"
    and "peer_addr self' = peer_addr self"
  using assms
  by (auto simp: ReplicaClient_connect_def disconnect_previous_def socket_disconnect_def
        socket_connect_def Let_def chosen_replica_def
      split: option.splits sum.splits if_splits)

lemma connect_keeps_id:
  "replica_id self \<noteq> None \<Longrightarrow> replica_id (snd (ReplicaClient_connect arg rnd self)) \<noteq> None"
  by (auto simp: ReplicaClient_connect_def disconnect_previous_def socket_disconnect_def
        socket_connect_def Let_def chosen_replica_def
      split: option.splits sum.splits if_splits)

lemma client_103_eq:
  "ReplicaClient_connect (Some 1) 0 (ReplicaClient_init 103 replicas) =
     (Inr (),
      \<lparr>peer_id = 103, peer_addr = replicas, replica_id = Some 1, channel = Some 0,
       channels_made = 1, identity = 103, endpoints = [''tcp://0.0.0.0:60001''],
       calls = [SocketConnect ''tcp://0.0.0.0:60001'']\<rparr>)"
  by (simp add: ReplicaClient_connect_def ReplicaClient_init_def disconnect_previous_def
        socket_connect_def replicas_def chosen_replica_def)

text \<open>
  C8. \<open>request\<close> raises AssertionError exactly when it is called on a client
  whose \<open>replica_id\<close> is \<open>None\<close>. That is the state
  \<open>__init__\<close> leaves, so a request before any connect raises it. After a
  connect that returned normally the assertion does not fire, and once
  \<open>replica_id\<close> is set no later connect, failed or not, resets it.
\<close>

theorem request_assertion:
  "((\<exists>self'. request deserialize polls t_start t_end command self = Some (Inl AssertionError, self'))
      \<longleftrightarrow> replica_id self = None)
   \<and> request deserialize polls t_start t_end command (ReplicaClient_init p addrs)
        = Some (Inl AssertionError, ReplicaClient_init p addrs)
   \<and> (fst (ReplicaClient_connect arg rnd self) = Inr () \<longrightarrow>
        (\<forall>self'. request deserialize polls t_start t_end command
                   (snd (ReplicaClient_connect arg rnd self)) \<noteq> Some (Inl AssertionError, self')))
   \<and> (replica_id self \<noteq> None \<longrightarrow>
        (\<forall>self'. request deserialize polls t_start t_end command
                   (snd (ReplicaClient_connect arg rnd self)) \<noteq> Some (Inl AssertionError, self')))"
proof -
  have no_assert: "request deserialize polls t_start t_end command c \<noteq> Some (Inl AssertionError, c')"
    if "replica_id c \<noteq> None" for c c' :: "'a ReplicaClient"
  proof
    assume r: "request deserialize polls t_start t_end command c = Some (Inl AssertionError, c')"
    show False
    proof (cases "send_client_request command c")
      case (Inl e)
      then have "e = AttributeError"
        by (auto simp: send_client_request_def split: option.splits)
      with r that Inl show False by (simp add: request_def)
    next
      case (Inr c1)
      with r that have "request_wait deserialize polls t_start t_end command 0 c1
                         = Some (Inl AssertionError, c')"
        by (simp add: request_def)
      from request_wait_no_assertion[OF this] show False by simp
    qed
  qed
  have iff: "(\<exists>self'. request deserialize polls t_start t_end command self = Some (Inl AssertionError, self'))
      \<longleftrightarrow> replica_id self = None"
  proof
    assume "\<exists>self'. request deserialize polls t_start t_end command self = Some (Inl AssertionError, self')"
    then show "replica_id self = None"
      using no_assert[of self] by blast
  next
    assume "replica_id self = None"
    then show "\<exists>self'. request deserialize polls t_start t_end command self = Some (Inl AssertionError, self')"
      by (simp add: request_def)
  qed
  have init: "request deserialize polls t_start t_end command (ReplicaClient_init p addrs)
        = Some (Inl AssertionError, ReplicaClient_init p addrs)"
    by (simp add: request_def ReplicaClient_init_def)
  have after: "fst (ReplicaClient_connect arg rnd self) = Inr () \<longrightarrow>
        (\<forall>self'. request deserialize polls t_start t_end command
                   (snd (ReplicaClient_connect arg rnd self)) \<noteq> Some (Inl AssertionError, self'))"
  proof
    assume "fst (ReplicaClient_connect arg rnd self) = Inr ()"
    then have "ReplicaClient_connect arg rnd self = (Inr (), snd (ReplicaClient_connect arg rnd self))"
      by (metis prod.collapse)
    from connect_ok(1)[OF this] have "replica_id (snd (ReplicaClient_connect arg rnd self)) \<noteq> None"
      by auto
    then show "\<forall>self'. request deserialize polls t_start t_end command
                   (snd (ReplicaClient_connect arg rnd self)) \<noteq> Some (Inl AssertionError, self')"
      using no_assert by blast
  qed
  have kept: "replica_id self \<noteq> None \<longrightarrow>
        (\<forall>self'. request deserialize polls t_start t_end command
                   (snd (ReplicaClient_connect arg rnd self)) \<noteq> Some (Inl AssertionError, self'))"
    using connect_keeps_id[of self arg rnd] no_assert by blast
  from iff init after kept show ?thesis by blast
qed

text \<open>
  The client 103 of the tests, connected to replica 1: the connect returns
  normally and the request that follows does not raise AssertionError, while
  the same request on the unconnected client does.
\<close>

theorem request_assertion_witness:
  "fst (ReplicaClient_connect (Some 1) 0 (ReplicaClient_init 103 replicas :: string ReplicaClient)) = Inr ()
   \<and> request (\<lambda>b. Inr b) (\<lambda>i. Timeout) 0 0 ''set x''
        (snd (ReplicaClient_connect (Some 1) 0 (ReplicaClient_init 103 replicas)))
       \<noteq> Some (Inl AssertionError, ReplicaClient_init 103 replicas)
   \<and> request (\<lambda>b. Inr b) (\<lambda>i. Timeout) 0 0 ''set x'' (ReplicaClient_init 103 replicas)
       = Some (Inl AssertionError, ReplicaClient_init 103 replicas)"
  using request_assertion [of "\<lambda>b. Inr b" "\<lambda>i. Timeout" 0 0 "''set x''"
          "ReplicaClient_init 103 replicas" 103 replicas "Some 1" 0]
  by (simp add: client_103_eq)


lemma request_after_timeouts:
  assumes rid: "replica_id self = Some rid" and ch: "channel self = Some ch"
    and quiet: "\<forall>j<n. polls j = Timeout"
  shows "request deserialize polls t_start t_end command self =
           request_wait deserialize polls t_start t_end command n
             (self\<lparr>calls := calls self @ ClientRequestCall ch (Some rid) command
                 # concat (replicate n [PollCall TIMEOUT, ClientRequestCall ch (Some rid) command])\<rparr>)"
proof -
  let ?self1 = "self\<lparr>calls := calls self @ [ClientRequestCall ch (Some rid) command]\<rparr>"
  have "request deserialize polls t_start t_end command self =
          request_wait deserialize polls t_start t_end command 0 ?self1"
    using rid ch by (simp add: request_def send_client_request_def)
  also have "\<dots> = request_wait deserialize polls t_start t_end command (0 + n)
                     (retried n ch command ?self1)"
    using quiet ch by (intro request_wait_timeouts) simp_all
  finally show ?thesis using rid by (simp add: retried_def)
qed

text \<open>
  C9. For a connected client (a replica id and a channel are set):
  \<^item> if the first \<open>n\<close> poll windows of 1000 ms bring nothing and the next one
    brings a one-frame reply that deserializes, \<open>request\<close> returns the latency
    \<open>t_end - t_start\<close> with the deserialized reply, having sent the
    identical \<open>client_request\<close> once at the start and once more after each
    of the \<open>n\<close> empty windows;
  \<^item> if no window ever brings anything, \<open>request\<close> does not return;
  \<^item> whenever \<open>request\<close> returns a result, such a reply did arrive.
\<close>

theorem request_returns_on_reply:
  assumes rid: "replica_id self = Some rid" and ch: "channel self = Some ch"
  shows
    "(\<forall>n payload rtn.
        (\<forall>j<n. polls j = Timeout) \<and> polls n = Readable [payload] \<and> deserialize payload = Inr rtn \<longrightarrow>
        request deserialize polls t_start t_end command self =
          Some (Inr (t_end - t_start, rtn),
                self\<lparr>calls := calls self @ request_calls n ch rid command\<rparr>))
     \<and> ((\<forall>j. polls j = Timeout) \<longrightarrow>
          request deserialize polls t_start t_end command self = None)
     \<and> (\<forall>latency rtn self'.
          request deserialize polls t_start t_end command self = Some (Inr (latency, rtn), self') \<longrightarrow>
          (\<exists>n payload. (\<forall>j<n. polls j = Timeout) \<and> polls n = Readable [payload]
              \<and> deserialize payload = Inr rtn \<and> latency = t_end - t_start
              \<and> self' = self\<lparr>calls := calls self @ request_calls n ch rid command\<rparr>))"
proof (intro conjI allI impI)
  fix n payload rtn
  assume a: "(\<forall>j<n. polls j = Timeout) \<and> polls n = Readable [payload] \<and> deserialize payload = Inr rtn"
  then have "request deserialize polls t_start t_end command self =
           request_wait deserialize polls t_start t_end command n
             (self\<lparr>calls := calls self @ ClientRequestCall ch (Some rid) command
                 # concat (replicate n [PollCall TIMEOUT, ClientRequestCall ch (Some rid) command])\<rparr>)"
    using request_after_timeouts[OF rid ch] by blast
  also have "\<dots> = Some (Inr (t_end - t_start, rtn),
                self\<lparr>calls := calls self @ request_calls n ch rid command\<rparr>)"
    using a by (simp add: request_wait_reply received_def polled_def request_calls_def)
  finally show "request deserialize polls t_start t_end command self =
          Some (Inr (t_end - t_start, rtn),
                self\<lparr>calls := calls self @ request_calls n ch rid command\<rparr>)" .
next
  assume quiet: "\<forall>j. polls j = Timeout"
  let ?self1 = "self\<lparr>calls := calls self @ [ClientRequestCall ch (Some rid) command]\<rparr>"
  have eq: "request deserialize polls t_start t_end command self =
          request_wait deserialize polls t_start t_end command 0 ?self1"
    using rid ch by (simp add: request_def send_client_request_def)
  show "request deserialize polls t_start t_end command self = None"
  proof (cases "request_wait deserialize polls t_start t_end command 0 ?self1")
    case None
    with eq show ?thesis by simp
  next
    case (Some y)
    from request_wait_needs_reply[OF this] ch quiet show ?thesis by simp
  qed
next
  fix latency rtn self'
  assume r: "request deserialize polls t_start t_end command self = Some (Inr (latency, rtn), self')"
  let ?self1 = "self\<lparr>calls := calls self @ [ClientRequestCall ch (Some rid) command]\<rparr>"
  have eq: "request deserialize polls t_start t_end command self =
          request_wait deserialize polls t_start t_end command 0 ?self1"
    using rid ch by (simp add: request_def send_client_request_def)
  with r have "request_wait deserialize polls t_start t_end command 0 ?self1
                 = Some (Inr (latency, rtn), self')" by simp
  from request_wait_needs_reply[OF this] ch have ex: "\<exists>n. polls n \<noteq> Timeout" by auto
  define n where "n = (LEAST n. polls n \<noteq> Timeout)"
  have at_n: "polls n \<noteq> Timeout"
    unfolding n_def using ex by (rule LeastI_ex)
  have before: "\<forall>j<n. polls j = Timeout"
    unfolding n_def using not_less_Least by blast
  let ?selfn = "self\<lparr>calls := calls self @ ClientRequestCall ch (Some rid) command
                 # concat (replicate n [PollCall TIMEOUT, ClientRequestCall ch (Some rid) command])\<rparr>"
  from request_after_timeouts[OF rid ch before, of deserialize t_start t_end command] r
  have w: "request_wait deserialize polls t_start t_end command n ?selfn
             = Some (Inr (latency, rtn), self')" by simp
  from at_n obtain frames where frames: "polls n = Readable frames"
    by (cases "polls n") auto
  from w frames obtain payload where
      p: "frames = [payload]" "deserialize payload = Inr rtn" "latency = t_end - t_start"
         "self' = received (polled ?selfn)"
    by (subst (asm) request_wait.simps) (auto split: list.splits sum.splits)
  have "self' = self\<lparr>calls := calls self @ request_calls n ch rid command\<rparr>"
    using p(4) by (simp add: received_def polled_def request_calls_def)
  with before frames p
  show "\<exists>n payload. (\<forall>j<n. polls j = Timeout) \<and> polls n = Readable [payload]
              \<and> deserialize payload = Inr rtn \<and> latency = t_end - t_start
              \<and> self' = self\<lparr>calls := calls self @ request_calls n ch rid command\<rparr>"
    by blast
qed

text \<open>
  Two empty windows and then the reply \<open>ok\<close>: three identical sends, and the
  latency of the two clock readings 5 and 8. With no reply at all the request
  does not return.
\<close>

theorem request_returns_on_reply_witness:
  "request (\<lambda>b. Inr b) (\<lambda>i. if i < 2 then Timeout else Readable [''ok'']) 5 8 ''set x''
      (snd (ReplicaClient_connect (Some 1) 0 (ReplicaClient_init 103 replicas)))
   = Some (Inr (3, ''ok''),
       \<lparr>peer_id = 103, peer_addr = replicas, replica_id = Some 1, channel = Some 0,
        channels_made = 1, identity = 103, endpoints = [''tcp://0.0.0.0:60001''],
        calls = [SocketConnect ''tcp://0.0.0.0:60001'',
                 ClientRequestCall 0 (Some 1) ''set x'',
                 PollCall 1000, ClientRequestCall 0 (Some 1) ''set x'',
                 PollCall 1000, ClientRequestCall 0 (Some 1) ''set x'',
                 PollCall 1000, RecvMultipart]\<rparr>)
   \<and> request (\<lambda>b. Inr b) (\<lambda>i. Timeout) 5 8 ''set x''
      (snd (ReplicaClient_connect (Some 1) 0 (ReplicaClient_init 103 replicas)))
     = (None :: ((error + real \<times> string) \<times> string ReplicaClient) option)"
proof -
  let ?c = "snd (ReplicaClient_connect (Some 1) 0 (ReplicaClient_init 103 replicas)) :: string ReplicaClient"
  have rid: "replica_id ?c = Some 1" and ch: "channel ?c = Some 0"
    by (simp_all add: client_103_eq)
  have two: "replicate 2 x = [x, x]" for x :: "string client_call list"
    by (simp add: numeral_2_eq_2)
  note thm1 = request_returns_on_reply [OF rid ch, of "\<lambda>i. if i < 2 then Timeout else Readable [''ok'']"
        "\<lambda>b. Inr b" 5 8 "''set x''"]
  note thm2 = request_returns_on_reply [OF rid ch, of "\<lambda>i. Timeout" "\<lambda>b. Inr b :: string + string" 5 8 "''set x''"]
  from thm1 have "request (\<lambda>b. Inr b) (\<lambda>i. if i < 2 then Timeout else Readable [''ok'']) 5 8 ''set x'' ?c
     = Some (Inr (8 - 5, ''ok''), ?c\<lparr>calls := calls ?c @ request_calls 2 0 1 ''set x''\<rparr>)"
    by (elim conjE allE[of _ "2::nat"] allE[of _ "''ok''"]) simp
  moreover from thm2 have "request (\<lambda>b. Inr b) (\<lambda>i. Timeout) 5 8 ''set x'' ?c = None"
    by simp
  ultimately show ?thesis
    by (simp add: client_103_eq request_calls_def two TIMEOUT_def)
qed


text \<open>
  C10. Let a connect have returned normally with \<open>replica_id = r1\<close>, and
  let a connect to \<open>r2\<close> follow (\<open>r2\<close> given, or drawn at random). If
  \<open>r1\<close> is not zero the socket is disconnected from the address of
  \<open>r1\<close>, and only then connected to the address of \<open>r2\<close>. If \<open>r1\<close> is
  zero there is no disconnect and the socket stays connected to the address of
  replica 0. In both cases \<open>replica_id\<close> becomes \<open>r2\<close> and the channel is
  a newly made object, also when \<open>r2\<close> has no address and the call ends in
  KeyError.
\<close>

theorem connect_after_connect:
  assumes first: "ReplicaClient_connect arg1 rnd1 self0 = (Inr (), self1)"
      and id1: "replica_id self1 = Some r1"
      and second: "ReplicaClient_connect arg2 rnd2 self1 = (res, self2)"
      and id2: "chosen_replica arg2 rnd2 self1 = Inr r2"
  shows "replica_id self2 = Some r2
     \<and> channel self2 = Some (channels_made self1)
     \<and> channel self2 \<noteq> channel self1
     \<and> (\<exists>a1. map_of (peer_addr self1) r1 = Some a1 \<and> replica_addr a1 \<in> set (endpoints self1)
          \<and> (if r1 \<noteq> 0
              then calls self2 = calls self1 @ SocketDisconnect (replica_addr a1)
                      # map SocketConnect (new_endpoint (peer_addr self1) r2)
                 \<and> endpoints self2 = remove1 (replica_addr a1) (endpoints self1)
                      @ new_endpoint (peer_addr self1) r2
              else calls self2 = calls self1 @ map SocketConnect (new_endpoint (peer_addr self1) r2)
                 \<and> endpoints self2 = endpoints self1 @ new_endpoint (peer_addr self1) r2
                 \<and> replica_addr a1 \<in> set (endpoints self2)))"
proof -
  from connect_ok(1)[OF first] id1 obtain a1 where
    a1: "map_of (peer_addr self1) r1 = Some a1" "replica_addr a1 \<in> set (endpoints self1)"
    by auto
  from connect_ok(2,3)[OF first] have ch1: "channel self1 = Some (channels_made self0)"
    "channels_made self1 = Suc (channels_made self0)"
    by simp_all
  have prev: "disconnect_previous self1 =
        (if r1 = 0 then Inr self1
         else Inr (self1\<lparr>endpoints := remove1 (replica_addr a1) (endpoints self1),
                     calls := calls self1 @ [SocketDisconnect (replica_addr a1)]\<rparr>))"
    using a1 id1 by (simp add: disconnect_previous_def socket_disconnect_def)
  show ?thesis
  proof (cases "r1 = 0")
    case True
    with second prev a1 ch1 id2 show ?thesis
      by (auto simp: ReplicaClient_connect_def Let_def socket_connect_def new_endpoint_def
               split: option.splits)
  next
    case False
    with second prev a1 ch1 id2 show ?thesis
      by (auto simp: ReplicaClient_connect_def Let_def socket_connect_def new_endpoint_def
               split: option.splits)
  qed
qed

text \<open>
  Client 103 connects to replica 1 and then to replica 2: connect, disconnect
  from the first address, connect to the second.
\<close>

theorem connect_after_connect_witness:
  "ReplicaClient_connect (Some 1) 0 (ReplicaClient_init 103 replicas :: string ReplicaClient) =
     (Inr (),
      \<lparr>peer_id = 103, peer_addr = replicas, replica_id = Some 1, channel = Some 0,
       channels_made = 1, identity = 103, endpoints = [''tcp://0.0.0.0:60001''],
       calls = [SocketConnect ''tcp://0.0.0.0:60001'']\<rparr>)
   \<and> calls (snd (ReplicaClient_connect (Some 2) 0
         (snd (ReplicaClient_connect (Some 1) 0 (ReplicaClient_init 103 replicas :: string ReplicaClient)))))
      = [SocketConnect ''tcp://0.0.0.0:60001'', SocketDisconnect ''tcp://0.0.0.0:60001'',
         SocketConnect ''tcp://0.0.0.0:60002'']
   \<and> replica_id (snd (ReplicaClient_connect (Some 2) 0
         (snd (ReplicaClient_connect (Some 1) 0 (ReplicaClient_init 103 replicas :: string ReplicaClient)))))
      = Some 2"
proof -
  let ?c0 = "ReplicaClient_init 103 replicas :: string ReplicaClient"
  let ?c1 = "snd (ReplicaClient_connect (Some 1) 0 ?c0)"
  let ?c2 = "snd (ReplicaClient_connect (Some 2) 0 ?c1)"
  have first: "ReplicaClient_connect (Some 1) 0 ?c0 = (Inr (), ?c1)"
    by (simp add: client_103_eq)
  have second: "ReplicaClient_connect (Some 2) 0 ?c1 = (fst (ReplicaClient_connect (Some 2) 0 ?c1), ?c2)"
    by simp
  have id1: "replica_id ?c1 = Some 1"
    by (simp add: client_103_eq)
  have id2: "chosen_replica (Some 2) 0 ?c1 = Inr 2"
    by (simp add: chosen_replica_def)
  from connect_after_connect [OF first id1 second id2]
  have "calls ?c2 = calls ?c1 @ SocketDisconnect ''tcp://0.0.0.0:60001''
                      # map SocketConnect (new_endpoint replicas 2)
        \<and> replica_id ?c2 = Some 2"
    apply (simp only: client_103_eq snd_conv)
    apply (simp add: replicas_def)
    done
  then show ?thesis
    apply (simp only: client_103_eq snd_conv)
    apply (simp add: new_endpoint_def replicas_def)
    done
qed

text \<open>After a connect to replica 0, a connect to replica 1 leaves both endpoints connected.\<close>

lemma connect_after_zero:
  "snd (ReplicaClient_connect (Some 1) 0
     (snd (ReplicaClient_connect (Some 0) 0
        (ReplicaClient_init 103 [(0, ReplicaAddress ''tcp://0.0.0.0:60000''),
                                 (1, ReplicaAddress ''tcp://0.0.0.0:60001'')]))))
   = (\<lparr>peer_id = 103,
       peer_addr = [(0, ReplicaAddress ''tcp://0.0.0.0:60000''),
                    (1, ReplicaAddress ''tcp://0.0.0.0:60001'')],
       replica_id = Some 1, channel = Some 1,
       channels_made = 2, identity = 103,
       endpoints = [''tcp://0.0.0.0:60000'', ''tcp://0.0.0.0:60001''],
       calls = [SocketConnect ''tcp://0.0.0.0:60000'', SocketConnect ''tcp://0.0.0.0:60001'']\<rparr>
      :: string ReplicaClient)"
  by (simp add: ReplicaClient_connect_def ReplicaClient_init_def disconnect_previous_def
        socket_connect_def chosen_replica_def)

section \<open>Properties of the server loop\<close>

lemma then_run_Inr:
  "then_run m f = (tr, Inr b) \<longleftrightarrow>
     (\<exists>tr1 a tr2. m = (tr1, Inr a) \<and> f a = (tr2, Inr b) \<and> tr = tr1 @ tr2)"
  by (cases m; cases "snd m") (auto simp: then_run_def split: prod.splits)

lemma then_run_Inl:
  "then_run m f = (tr, Inl e) \<longleftrightarrow>
     m = (tr, Inl e) \<or> (\<exists>tr1 a tr2. m = (tr1, Inr a) \<and> f a = (tr2, Inl e) \<and> tr = tr1 @ tr2)"
  by (cases m; cases "snd m") (auto simp: then_run_def split: prod.splits)

lemma call_Inr: "call ev res = (tr, Inr a) \<longleftrightarrow> res = Inr a \<and> tr = [ev]"
  by (auto simp: call_def split: sum.splits)

lemma call_Inl: "call ev res = (tr, Inl e) \<longleftrightarrow> (\<exists>x. res = Inl x \<and> e = Foreign x) \<and> tr = [ev]"
  by (auto simp: call_def split: sum.splits)

lemma done_run_eq: "done_run a = (tr, res) \<longleftrightarrow> tr = [] \<and> res = Inr a"
  by (auto simp: done_run_def)

lemma recv_all_Inr:
  "recv_all queue acc = (tr, Inr packets) \<longleftrightarrow>
     [] \<notin> set queue \<and> packets = acc @ map last queue
     \<and> tr = map RecvNoblock queue @ [RecvWouldBlock]"
proof (induction queue arbitrary: acc tr)
  case Nil
  show ?case by auto
next
  case (Cons frames queue)
  show ?case
  proof (cases "frames = []")
    case True
    then show ?thesis by auto
  next
    case False
    then show ?thesis
      using Cons.IH [of "acc @ [last frames]"]
      by (auto simp: then_run_Inr)
  qed
qed

lemma dispatch_Inr:
  "dispatch co packets r = (tr, Inr r') \<Longrightarrow> tr = map ReceivePacket packets"
proof (induction packets arbitrary: r tr)
  case Nil
  then show ?case by (simp add: done_run_eq)
next
  case (Cons p ps)
  then show ?case
    by (auto simp: then_run_Inr call_Inr)
qed

lemma tick_phase_Inr:
  assumes "tick_phase co loc env r = (tr, Inr (ltt, r'))"
  shows "if now_after_poll env - last_tick_time loc > seconds_per_tick r
         then tr = [Tick, CheckTimeouts] \<and> ltt = now_at_tick env
              \<and> (\<exists>r1. tick co r = Inr r1 \<and> check_timeouts co r1 = Inr r')
         else tr = [] \<and> ltt = last_tick_time loc \<and> r' = r"
  using assms
  by (auto simp: tick_phase_def then_run_Inr call_Inr done_run_eq split: if_splits)

lemma packet_phase_Inr:
  assumes "packet_phase co env r = (tr, Inr r')"
  shows "if poll_ready env
         then [] \<notin> set (inbound env)
            \<and> tr = map RecvNoblock (inbound env) @ [RecvWouldBlock]
                   @ map ReceivePacket (map last (inbound env))
                   @ (if inbound env = [] then [] else [ExecutePending])
         else tr = [] \<and> r' = r"
proof (cases "poll_ready env")
  case False
  with assms show ?thesis by (simp add: packet_phase_def done_run_eq)
next
  case True
  with assms obtain tr1 packets tr2 r1 tr3 where
      recv: "recv_all (inbound env) [] = (tr1, Inr packets)"
    and disp: "dispatch co packets r = (tr2, Inr r1)"
    and exec: "(if length packets \<noteq> 0 then call ExecutePending (execute_pending co r1)
                else done_run r1) = (tr3, Inr r')"
    and tr: "tr = tr1 @ tr2 @ tr3"
    by (auto simp: packet_phase_def then_run_Inr)
  from recv have q: "[] \<notin> set (inbound env)" "packets = map last (inbound env)"
      "tr1 = map RecvNoblock (inbound env) @ [RecvWouldBlock]"
    by (simp_all add: recv_all_Inr)
  from dispatch_Inr[OF disp] have tr2: "tr2 = map ReceivePacket packets" .
  from exec q(2) have tr3: "tr3 = (if inbound env = [] then [] else [ExecutePending])"
    by (auto simp: call_Inr done_run_eq split: if_splits)
  from True q tr tr2 tr3 show ?thesis by simp
qed

lemma print_stats_Inr:
  "print_stats lt r = (tr, Inr lt') \<Longrightarrow> tr = [] \<or> tr = [Print]"
  by (auto simp: print_stats_def done_run_eq split: if_splits)

lemma main_iteration_Inr:
  assumes "main_iteration co loc r env = (tr, Inr (loc', r'))"
  shows "\<exists>mw r1 r2 ticking handling printing.
           check_timeouts_minimum_wait co r = Inr (mw, r1)
         \<and> tick_phase co loc env r1 = (ticking, Inr (last_tick_time loc', r2))
         \<and> packet_phase co env r2 = (handling, Inr r')
         \<and> print_stats (last_tick loc) r' = (printing, Inr (last_tick loc'))
         \<and> poll_delta loc' = now_after_poll env - last_tick_time loc
         \<and> tr = MinimumWait # Poll (poll_wait (seconds_per_tick r1) (poll_delta loc) mw * 1000)
                  # ticking @ handling @ printing"
  using assms
  by (auto simp: main_iteration_def then_run_Inr call_Inr done_run_eq)


lemmas run_simps = then_run_def call_def done_run_def

lemma sample_iteration_quiet:
  "main_iteration sample_collaborators sample_locals sample_replica
     \<lparr>poll_ready = False, now_after_poll = 5/4, now_at_tick = 5/4, inbound = []\<rparr>
   = ([MinimumWait, Poll 1000, Tick, CheckTimeouts],
      Inr (\<lparr>last_tick_time = 5/4, poll_delta = 5/4, last_tick = 0\<rparr>,
           sample_replica\<lparr>ticks := 1\<rparr>))"
  by (simp add: main_iteration_def sample_collaborators_def sample_locals_def sample_replica_def
        tick_phase_def packet_phase_def print_stats_def poll_wait_def run_simps)

lemma sample_iteration_packets:
  "main_iteration sample_collaborators sample_locals sample_replica
     \<lparr>poll_ready = True, now_after_poll = 1/2, now_at_tick = 1/2,
      inbound = [[''2'', ''a''], [''3'', ''b''], [''2'', ''c'']]\<rparr>
   = ([MinimumWait, Poll 1000,
       RecvNoblock [''2'', ''a''], RecvNoblock [''3'', ''b''], RecvNoblock [''2'', ''c''],
       RecvWouldBlock, ReceivePacket ''a'', ReceivePacket ''b'', ReceivePacket ''c'',
       ExecutePending],
      Inr (\<lparr>last_tick_time = 0, poll_delta = 1/2, last_tick = 0\<rparr>,
           sample_replica\<lparr>rest := [''a'', ''b'', ''c'']\<rparr>))"
  by (simp add: main_iteration_def sample_collaborators_def sample_locals_def sample_replica_def
        tick_phase_def packet_phase_def print_stats_def poll_wait_def run_simps)


lemma dispatched_append: "dispatched (xs @ ys) = dispatched xs @ dispatched ys"
  by (induction xs rule: dispatched.induct) simp_all

lemma dispatched_ReceivePacket: "dispatched (map ReceivePacket ps) = ps"
  by (induction ps) simp_all

lemma dispatched_RecvNoblock: "dispatched (map RecvNoblock ms) = []"
  by (induction ms) simp_all

lemma received_append: "received_messages (xs @ ys) = received_messages xs @ received_messages ys"
  by (induction xs rule: received_messages.induct) simp_all

lemma received_RecvNoblock: "received_messages (map RecvNoblock ms) = ms"
  by (induction ms) simp_all

lemma received_ReceivePacket: "received_messages (map ReceivePacket ps) = []"
  by (induction ps) simp_all

lemma main_iteration_trace:
  assumes "main_iteration co loc r env = (tr, Inr (loc', r'))"
  obtains mw r1 printing where
      "check_timeouts_minimum_wait co r = Inr (mw, r1)"
      "last_tick_time loc' =
         (if now_after_poll env - last_tick_time loc > seconds_per_tick r1
          then now_at_tick env else last_tick_time loc)"
      "printing = [] \<or> printing = [Print]"
      "poll_ready env \<longrightarrow> [] \<notin> set (inbound env)"
      "poll_delta loc' = now_after_poll env - last_tick_time loc"
      "tr = MinimumWait # Poll (poll_wait (seconds_per_tick r1) (poll_delta loc) mw * 1000)
             # ticking_trace (now_after_poll env - last_tick_time loc > seconds_per_tick r1)
             @ handling_trace env @ printing"
proof -
  from main_iteration_Inr[OF assms] obtain mw r1 r2 ticking handling printing where
      w: "check_timeouts_minimum_wait co r = Inr (mw, r1)"
    and t: "tick_phase co loc env r1 = (ticking, Inr (last_tick_time loc', r2))"
    and h: "packet_phase co env r2 = (handling, Inr r')"
    and p: "print_stats (last_tick loc) r' = (printing, Inr (last_tick loc'))"
    and d: "poll_delta loc' = now_after_poll env - last_tick_time loc"
    and tr: "tr = MinimumWait # Poll (poll_wait (seconds_per_tick r1) (poll_delta loc) mw * 1000)
                  # ticking @ handling @ printing"
    by blast
  from tick_phase_Inr[OF t]
  have t': "ticking = ticking_trace (now_after_poll env - last_tick_time loc > seconds_per_tick r1)"
      "last_tick_time loc' =
             (if now_after_poll env - last_tick_time loc > seconds_per_tick r1
              then now_at_tick env else last_tick_time loc)"
    by (simp_all add: ticking_trace_def split: if_splits)
  from packet_phase_Inr[OF h]
  have h': "handling = handling_trace env" "poll_ready env \<longrightarrow> [] \<notin> set (inbound env)"
    by (simp_all add: handling_trace_def split: if_splits)
  from print_stats_Inr[OF p] have p': "printing = [] \<or> printing = [Print]" .
  show thesis
    by (rule that[OF w t'(2) p' h'(2) d]) (simp add: tr t'(1) h'(1))
qed






lemma dispatch_keeps_ticks:
  "keeps_ticks co \<Longrightarrow> dispatch co packets r = (tr, Inr r') \<Longrightarrow> ticks r' = ticks r"
proof (induction packets arbitrary: r tr)
  case Nil
  then show ?case by (simp add: done_run_eq)
next
  case (Cons p ps)
  from Cons.prems(2) obtain r1 tr2 where
      "receive_packet co p r = Inr r1" "dispatch co ps r1 = (tr2, Inr r')"
    by (auto simp: then_run_Inr call_Inr)
  with Cons.IH[OF Cons.prems(1)] Cons.prems(1) show ?case
    by (metis keeps_ticks_def)
qed

lemma packet_phase_keeps_ticks:
  assumes "keeps_ticks co" and "packet_phase co env r = (tr, Inr r')"
  shows "ticks r' = ticks r"
proof (cases "poll_ready env")
  case False
  with assms(2) show ?thesis by (simp add: packet_phase_def done_run_eq)
next
  case True
  with assms(2) obtain tr1 packets tr2 r1 tr3 where
      disp: "dispatch co packets r = (tr2, Inr r1)"
    and exec: "(if length packets \<noteq> 0 then call ExecutePending (execute_pending co r1)
                else done_run r1) = (tr3, Inr r')"
    by (auto simp: packet_phase_def then_run_Inr)
  from dispatch_keeps_ticks[OF assms(1) disp] have "ticks r1 = ticks r" .
  moreover from exec assms(1) have "ticks r' = ticks r1"
    by (auto simp: call_Inr done_run_eq keeps_ticks_def split: if_splits)
  ultimately show ?thesis by simp
qed

lemma handling_trace_events:
  "Tick \<notin> set (handling_trace env)" "CheckTimeouts \<notin> set (handling_trace env)"
  "Poll w \<notin> set (handling_trace env)"
  by (auto simp: handling_trace_def)

text \<open>
  C4. In an iteration that completes, let the elapsed time be the clock reading
  after the poll minus \<open>last_tick_time\<close>. If it is greater than
  \<open>seconds_per_tick\<close>, the calls after the poll start with one \<open>tick\<close>
  and one \<open>check_timeouts\<close>, there is no other, and \<open>last_tick_time\<close>
  becomes the reading taken after them. Otherwise the iteration calls neither,
  \<open>last_tick_time\<close> stays, and the tick counter is unchanged provided the
  other collaborators do not write it.
\<close>

theorem tick_when_elapsed:
  assumes "main_iteration co loc r env = (tr, Inr (loc', r'))"
  shows "\<exists>mw r1 wait rest_tr.
           check_timeouts_minimum_wait co r = Inr (mw, r1)
         \<and> Tick \<notin> set rest_tr \<and> CheckTimeouts \<notin> set rest_tr
         \<and> (if now_after_poll env - last_tick_time loc > seconds_per_tick r1
             then tr = [MinimumWait, Poll wait, Tick, CheckTimeouts] @ rest_tr
                \<and> last_tick_time loc' = now_at_tick env
                \<and> (\<exists>r2. tick co r1 = Inr r2)
             else tr = [MinimumWait, Poll wait] @ rest_tr
                \<and> last_tick_time loc' = last_tick_time loc
                \<and> (keeps_ticks co \<longrightarrow> ticks r' = ticks r))"
proof -
  from main_iteration_Inr[OF assms] obtain mw r1 r2 ticking handling printing where
      w: "check_timeouts_minimum_wait co r = Inr (mw, r1)"
    and t: "tick_phase co loc env r1 = (ticking, Inr (last_tick_time loc', r2))"
    and h: "packet_phase co env r2 = (handling, Inr r')"
    and p: "print_stats (last_tick loc) r' = (printing, Inr (last_tick loc'))"
    and tr: "tr = MinimumWait # Poll (poll_wait (seconds_per_tick r1) (poll_delta loc) mw * 1000)
                  # ticking @ handling @ printing"
    by blast
  define wait where "wait = poll_wait (seconds_per_tick r1) (poll_delta loc) mw * 1000"
  define rest_tr where "rest_tr = handling @ printing"
  from packet_phase_Inr[OF h] have h': "handling = handling_trace env"
    by (simp add: handling_trace_def split: if_splits)
  from print_stats_Inr[OF p] have p': "printing = [] \<or> printing = [Print]" .
  have no_tick: "Tick \<notin> set rest_tr" "CheckTimeouts \<notin> set rest_tr"
    using p' by (auto simp: rest_tr_def h' handling_trace_events)
  show ?thesis
  proof (cases "now_after_poll env - last_tick_time loc > seconds_per_tick r1")
    case True
    with tick_phase_Inr[OF t] have
        "ticking = [Tick, CheckTimeouts]" "last_tick_time loc' = now_at_tick env"
        "\<exists>r2. tick co r1 = Inr r2"
      by auto
    with True w no_tick tr show ?thesis
      by (simp add: wait_def rest_tr_def)
  next
    case False
    with tick_phase_Inr[OF t] have
        nt: "ticking = []" "last_tick_time loc' = last_tick_time loc" "r2 = r1"
      by auto
    have "ticks r' = ticks r" if k: "keeps_ticks co"
    proof -
      from k w have "ticks r1 = ticks r" by (simp add: keeps_ticks_def)
      moreover from packet_phase_keeps_ticks[OF k h] nt have "ticks r' = ticks r1" by simp
      ultimately show ?thesis by simp
    qed
    with False w no_tick tr nt show ?thesis
      by (simp add: wait_def rest_tr_def)
  qed
qed

lemma sample_keeps_ticks: "keeps_ticks sample_collaborators"
  by (auto simp: keeps_ticks_def sample_collaborators_def split: if_splits)

text \<open>
  Half a second after the last tick, with one second per tick: the iteration
  handles its three packets without a tick, and the counter stays at 0.
\<close>

theorem tick_when_elapsed_witness:
  "main_iteration sample_collaborators sample_locals sample_replica
     \<lparr>poll_ready = True, now_after_poll = 1/2, now_at_tick = 1/2,
      inbound = [[''2'', ''a''], [''3'', ''b''], [''2'', ''c'']]\<rparr>
   = ([MinimumWait, Poll 1000,
       RecvNoblock [''2'', ''a''], RecvNoblock [''3'', ''b''], RecvNoblock [''2'', ''c''],
       RecvWouldBlock, ReceivePacket ''a'', ReceivePacket ''b'', ReceivePacket ''c'',
       ExecutePending],
      Inr (\<lparr>last_tick_time = 0, poll_delta = 1/2, last_tick = 0\<rparr>,
           sample_replica\<lparr>rest := [''a'', ''b'', ''c'']\<rparr>))
   \<and> keeps_ticks sample_collaborators
   \<and> ticks (sample_replica\<lparr>rest := [''a'', ''b'', ''c'']\<rparr>) = ticks sample_replica"
proof -
  from tick_when_elapsed [OF sample_iteration_packets] sample_keeps_ticks
  have "ticks (sample_replica\<lparr>rest := [''a'', ''b'', ''c'']\<rparr>) = ticks sample_replica"
    by (simp add: sample_collaborators_def sample_locals_def sample_replica_def)
  with sample_iteration_packets sample_keeps_ticks show ?thesis
    by (intro conjI)
qed

lemma handling_trace_received:
  "received_messages (handling_trace env) = (if poll_ready env then inbound env else [])"
  by (simp add: handling_trace_def received_append received_RecvNoblock received_ReceivePacket
       del: map_map)

lemma handling_trace_dispatched:
  "dispatched (handling_trace env) = (if poll_ready env then map last (inbound env) else [])"
  by (simp add: handling_trace_def dispatched_append dispatched_RecvNoblock dispatched_ReceivePacket
       del: map_map)

lemma ticking_trace_projections:
  "received_messages (ticking_trace b) = []" "dispatched (ticking_trace b) = []"
  "Poll w \<notin> set (ticking_trace b)"
  by (simp_all add: ticking_trace_def)

text \<open>
  C5, as the code has it. An iteration that completes polls once, first thing
  after the query for the minimum wait, and everything it receives afterwards
  it receives without blocking. The wait, in seconds, is the minimum of the
  reported wait and the cap \<open>max 0 (seconds_per_tick - poll_delta)\<close>; when
  the report is \<open>None\<close> or zero, it is the cap alone. \<open>poll_delta\<close> is
  the elapsed time since the last tick as it was measured right after the
  previous poll (zero before the first poll): the iteration stores the
  measurement and does not reset it when it ticks, so after an iteration that
  ticked the cap of the next poll is zero.
\<close>

theorem poll_wait_of_iteration:
  assumes "main_iteration co loc r env = (tr, Inr (loc', r'))"
  shows "\<exists>mw r1 rest_tr.
           check_timeouts_minimum_wait co r = Inr (mw, r1)
         \<and> tr = [MinimumWait,
                  Poll ((let cap = max 0 (seconds_per_tick r1 - poll_delta loc)
                         in case mw of None \<Rightarrow> cap
                            | Some w \<Rightarrow> if w = 0 then cap else min w cap) * 1000)] @ rest_tr
         \<and> (\<forall>w. Poll w \<notin> set rest_tr)
         \<and> received_messages rest_tr = (if poll_ready env then inbound env else [])
         \<and> poll_delta loc' = now_after_poll env - last_tick_time loc
         \<and> (Tick \<in> set tr \<longrightarrow> max 0 (seconds_per_tick r1 - poll_delta loc') = 0)"
proof -
  from assms obtain mw r1 printing where
        w: "check_timeouts_minimum_wait co r = Inr (mw, r1)"
    and "last_tick_time loc' =
           (if now_after_poll env - last_tick_time loc > seconds_per_tick r1
            then now_at_tick env else last_tick_time loc)"
    and p: "printing = [] \<or> printing = [Print]"
    and "poll_ready env \<longrightarrow> [] \<notin> set (inbound env)"
    and d: "poll_delta loc' = now_after_poll env - last_tick_time loc"
    and tr: "tr = MinimumWait # Poll (poll_wait (seconds_per_tick r1) (poll_delta loc) mw * 1000)
                  # ticking_trace (now_after_poll env - last_tick_time loc > seconds_per_tick r1)
                  @ handling_trace env @ printing"
    by (rule main_iteration_trace)
  define rest_tr where
    "rest_tr = ticking_trace (now_after_poll env - last_tick_time loc > seconds_per_tick r1)
                 @ handling_trace env @ printing"
  have wait: "poll_wait (seconds_per_tick r1) (poll_delta loc) mw =
                (let cap = max 0 (seconds_per_tick r1 - poll_delta loc)
                 in case mw of None \<Rightarrow> cap | Some w \<Rightarrow> if w = 0 then cap else min w cap)"
    by (simp add: poll_wait_def Let_def split: option.splits)
  have tr': "tr = [MinimumWait,
                  Poll ((let cap = max 0 (seconds_per_tick r1 - poll_delta loc)
                         in case mw of None \<Rightarrow> cap
                            | Some w \<Rightarrow> if w = 0 then cap else min w cap) * 1000)] @ rest_tr"
    unfolding tr wait rest_tr_def by simp
  have no_poll: "\<forall>w. Poll w \<notin> set rest_tr"
    using p by (auto simp: rest_tr_def handling_trace_events ticking_trace_projections)
  have recv: "received_messages rest_tr = (if poll_ready env then inbound env else [])"
    using p by (auto simp: rest_tr_def received_append handling_trace_received
                  ticking_trace_projections)
  have stale: "Tick \<in> set tr \<longrightarrow> max 0 (seconds_per_tick r1 - poll_delta loc') = 0"
  proof
    assume "Tick \<in> set tr"
    with p have "now_after_poll env - last_tick_time loc > seconds_per_tick r1"
      by (auto simp: tr ticking_trace_def handling_trace_events split: if_splits)
    with d show "max 0 (seconds_per_tick r1 - poll_delta loc') = 0" by simp
  qed
  from w tr' no_poll recv d stale show ?thesis by blast
qed


text \<open>
  The first iteration of the sample replica: no pending timeout, one second
  per tick, so the poll waits 1000 ms, and it is the only poll.
\<close>

theorem poll_wait_of_iteration_witness:
  "\<exists>rest_tr.
     fst (main_iteration sample_collaborators sample_locals sample_replica
            \<lparr>poll_ready = False, now_after_poll = 5/4, now_at_tick = 5/4, inbound = []\<rparr>)
       = [MinimumWait, Poll 1000] @ rest_tr
     \<and> (\<forall>w. Poll w \<notin> set rest_tr)"
proof -
  from poll_wait_of_iteration [OF sample_iteration_quiet] obtain mw r1 rest_tr where
      w: "check_timeouts_minimum_wait sample_collaborators sample_replica = Inr (mw, r1)"
    and tr: "[MinimumWait, Poll 1000, Tick, CheckTimeouts] = [MinimumWait,
                  Poll ((let cap = max 0 (seconds_per_tick r1 - poll_delta sample_locals)
                         in case mw of None \<Rightarrow> cap
                            | Some w \<Rightarrow> if w = 0 then cap else min w cap) * 1000)] @ rest_tr"
    and no_poll: "\<forall>w. Poll w \<notin> set rest_tr"
    by blast
  from tr have "[MinimumWait, Poll 1000, Tick, CheckTimeouts] = [MinimumWait, Poll 1000] @ rest_tr"
    by simp
  with no_poll show ?thesis
    by (simp add: sample_iteration_quiet)
qed

text \<open>
  The wait is not the remaining tick interval computed from the time since
  the last tick. The first iteration below returns from its poll after 1.25 s,
  ticks, and records that instant as the last tick. The second iteration
  polls with a wait of 0 ms. Its poll returns 0.25 s after the tick, so at the
  poll the time since the last tick was between 0 and 0.25 s, and no such value
  makes the wait of the specification zero: it is at least 750 ms.
\<close>

theorem poll_wait_counterexample:
  "main_loop sample_collaborators
     [\<lparr>poll_ready = False, now_after_poll = 5/4, now_at_tick = 5/4, inbound = []\<rparr>,
      \<lparr>poll_ready = False, now_after_poll = 3/2, now_at_tick = 3/2, inbound = []\<rparr>]
     sample_locals sample_replica
   = ([MinimumWait, Poll 1000, Tick, CheckTimeouts, MinimumWait, Poll 0],
      StillRunning \<lparr>last_tick_time = 5/4, poll_delta = 1/4, last_tick = 0\<rparr>
        (sample_replica\<lparr>ticks := 1\<rparr>))
   \<and> \<not> (\<exists>since. 0 \<le> since \<and> since \<le> 1/4 \<and> claimed_wait 1 since None * 1000 = 0)"
proof -
  have second:
    "main_iteration sample_collaborators
       \<lparr>last_tick_time = 5/4, poll_delta = 5/4, last_tick = 0\<rparr>
       (sample_replica\<lparr>ticks := 1\<rparr>)
       \<lparr>poll_ready = False, now_after_poll = 3/2, now_at_tick = 3/2, inbound = []\<rparr>
     = ([MinimumWait, Poll 0],
        Inr (\<lparr>last_tick_time = 5/4, poll_delta = 1/4, last_tick = 0\<rparr>,
             sample_replica\<lparr>ticks := 1\<rparr>))"
    by (simp add: main_iteration_def sample_collaborators_def sample_replica_def
          tick_phase_def packet_phase_def print_stats_def poll_wait_def
          then_run_def call_def done_run_def)
  have run: "main_loop sample_collaborators
     [\<lparr>poll_ready = False, now_after_poll = 5/4, now_at_tick = 5/4, inbound = []\<rparr>,
      \<lparr>poll_ready = False, now_after_poll = 3/2, now_at_tick = 3/2, inbound = []\<rparr>]
     sample_locals sample_replica
   = ([MinimumWait, Poll 1000, Tick, CheckTimeouts, MinimumWait, Poll 0],
      StillRunning \<lparr>last_tick_time = 5/4, poll_delta = 1/4, last_tick = 0\<rparr>
        (sample_replica\<lparr>ticks := 1\<rparr>))"
    by (simp add: sample_iteration_quiet second)
  have "\<not> (\<exists>since::real. 0 \<le> since \<and> since \<le> 1/4 \<and> claimed_wait 1 since None * 1000 = 0)"
    by (auto simp: claimed_wait_def max_def)
  with run show ?thesis by blast
qed

text \<open>
  C6. In an iteration that completes, the messages received are the ones
  queued on the socket, in their order; the packets handed to
  \<open>receive_packet\<close> are their last frames in the same order, in one block
  after which nothing is received or dispatched in the iteration. Hence the
  packets of any one peer (the first frame on a ROUTER socket names the sender)
  are handled in the order they arrived.
\<close>

theorem packets_in_arrival_order:
  assumes "main_iteration co loc r env = (tr, Inr (loc', r'))"
  shows "received_messages tr = (if poll_ready env then inbound env else [])
       \<and> dispatched tr = map last (received_messages tr)
       \<and> (\<forall>peer. subseq (map last (filter (\<lambda>m. hd m = peer) (received_messages tr)))
                         (dispatched tr))
       \<and> (\<exists>before after. tr = before @ map ReceivePacket (dispatched tr) @ after
             \<and> dispatched before = [] \<and> dispatched after = []
             \<and> received_messages after = [])"
proof -
  from assms obtain mw r1 printing where
        "check_timeouts_minimum_wait co r = Inr (mw, r1)"
        "last_tick_time loc' =
           (if now_after_poll env - last_tick_time loc > seconds_per_tick r1
            then now_at_tick env else last_tick_time loc)"
    and p: "printing = [] \<or> printing = [Print]"
    and "poll_ready env \<longrightarrow> [] \<notin> set (inbound env)"
        "poll_delta loc' = now_after_poll env - last_tick_time loc"
    and tr: "tr = MinimumWait # Poll (poll_wait (seconds_per_tick r1) (poll_delta loc) mw * 1000)
                  # ticking_trace (now_after_poll env - last_tick_time loc > seconds_per_tick r1)
                  @ handling_trace env @ printing"
    by (rule main_iteration_trace)
  let ?head = "MinimumWait # Poll (poll_wait (seconds_per_tick r1) (poll_delta loc) mw * 1000)
                # ticking_trace (now_after_poll env - last_tick_time loc > seconds_per_tick r1)"
  have head: "received_messages ?head = []" "dispatched ?head = []"
    by (simp_all add: ticking_trace_projections)
  have tail: "received_messages printing = []" "dispatched printing = []"
    using p by auto
  have tr2: "tr = ?head @ handling_trace env @ printing"
    by (simp add: tr)
  have recv: "received_messages tr = (if poll_ready env then inbound env else [])"
    unfolding tr2 received_append head tail handling_trace_received by simp
  have disp: "dispatched tr = (if poll_ready env then map last (inbound env) else [])"
    unfolding tr2 dispatched_append head tail handling_trace_dispatched by simp
  from recv disp have order: "dispatched tr = map last (received_messages tr)"
    by simp
  have per_peer: "subseq (map last (filter (\<lambda>m. hd m = peer) (received_messages tr)))
                         (dispatched tr)" for peer
    unfolding order by (intro subseq_map subseq_filter_left)
  have split: "\<exists>before after. tr = before @ map ReceivePacket (dispatched tr) @ after
             \<and> dispatched before = [] \<and> dispatched after = []
             \<and> received_messages after = []"
  proof (cases "poll_ready env")
    case False
    then have "tr = tr @ map ReceivePacket (dispatched tr) @ []" "dispatched tr = []"
      using disp by simp_all
    then show ?thesis by (metis dispatched.simps(1) received_messages.simps(1))
  next
    case True
    let ?before = "?head @ map RecvNoblock (inbound env) @ [RecvWouldBlock]"
    let ?after = "(if inbound env = [] then [] else [ExecutePending]) @ printing"
    have "tr = ?before @ map ReceivePacket (dispatched tr) @ ?after"
      using True disp by (simp add: tr handling_trace_def)
    moreover have "dispatched ?before = []"
      by (simp add: dispatched_append dispatched_RecvNoblock ticking_trace_projections)
    moreover have "dispatched ?after = []" "received_messages ?after = []"
      using p by auto
    ultimately show ?thesis by blast
  qed
  from recv order per_peer split show ?thesis by blast
qed

text \<open>
  Peer 2 sends \<open>a\<close> and \<open>c\<close> around a packet of peer 3: the three are
  handled in arrival order, \<open>a\<close> before \<open>c\<close>.
\<close>

theorem packets_in_arrival_order_witness:
  "dispatched
     (fst (main_iteration sample_collaborators sample_locals sample_replica
        \<lparr>poll_ready = True, now_after_poll = 1/2, now_at_tick = 1/2,
         inbound = [[''2'', ''a''], [''3'', ''b''], [''2'', ''c'']]\<rparr>))
   = [''a'', ''b'', ''c'']
   \<and> subseq [''a'', ''c'']
       (dispatched
         (fst (main_iteration sample_collaborators sample_locals sample_replica
            \<lparr>poll_ready = True, now_after_poll = 1/2, now_at_tick = 1/2,
             inbound = [[''2'', ''a''], [''3'', ''b''], [''2'', ''c'']]\<rparr>)))"
proof -
  note t = packets_in_arrival_order [OF sample_iteration_packets]
  from t have recv: "received_messages
     [MinimumWait, Poll 1000,
       RecvNoblock [''2'', ''a''], RecvNoblock [''3'', ''b''], RecvNoblock [''2'', ''c''],
       RecvWouldBlock, ReceivePacket ''a'', ReceivePacket ''b'', ReceivePacket ''c'',
       ExecutePending] = [[''2'', ''a''], [''3'', ''b''], [''2'', ''c'']]"
    by simp
  from t have "subseq (map last (filter (\<lambda>m. hd m = ''2'') (received_messages
     [MinimumWait, Poll 1000,
       RecvNoblock [''2'', ''a''], RecvNoblock [''3'', ''b''], RecvNoblock [''2'', ''c''],
       RecvWouldBlock, ReceivePacket ''a'', ReceivePacket ''b'', ReceivePacket ''c'',
       ExecutePending]))) (dispatched
     [MinimumWait, Poll 1000,
       RecvNoblock [''2'', ''a''], RecvNoblock [''3'', ''b''], RecvNoblock [''2'', ''c''],
       RecvWouldBlock, ReceivePacket ''a'', ReceivePacket ''b'', ReceivePacket ''c'',
       ExecutePending])"
    by blast
  then have "subseq [''a'', ''c''] (dispatched
     [MinimumWait, Poll 1000,
       RecvNoblock [''2'', ''a''], RecvNoblock [''3'', ''b''], RecvNoblock [''2'', ''c''],
       RecvWouldBlock, ReceivePacket ''a'', ReceivePacket ''b'', ReceivePacket ''c'',
       ExecutePending])"
    unfolding recv by simp
  then show ?thesis
    by (simp add: sample_iteration_packets)
qed


lemma dispatch_raises:
  "dispatch co ps r = (tr_ps, Inr r1) \<Longrightarrow> receive_packet co p r1 = Inl x \<Longrightarrow>
   dispatch co (ps @ p # qs) r = (map ReceivePacket ps @ [ReceivePacket p], Inl (Foreign x))"
proof (induction ps arbitrary: r tr_ps)
  case Nil
  then show ?case
    by (simp add: done_run_eq then_run_def call_def)
next
  case (Cons q ps)
  from Cons.prems(1) obtain r' tr' where
      q: "receive_packet co q r = Inr r'" and rest: "dispatch co ps r' = (tr', Inr r1)"
    by (auto simp: then_run_Inr call_Inr)
  from Cons.IH[OF rest Cons.prems(2)] q show ?case
    by (simp add: then_run_def call_def)
qed

lemma recv_all_well_formed:
  "[] \<notin> set queue \<Longrightarrow>
   recv_all queue [] = (map RecvNoblock queue @ [RecvWouldBlock], Inr (map last queue))"
  using recv_all_Inr [of queue "[]" "map RecvNoblock queue @ [RecvWouldBlock]" "map last queue"]
  by simp

lemma replica_server_logs:
  "ReplicaServer_init co epoch rid addrs = Inr rs \<Longrightarrow>
   main_loop co envs \<lparr>last_tick_time = t0, poll_delta = 0, last_tick = ticks (replica rs)\<rparr>
     (replica rs) = (tr, Terminated e) \<Longrightarrow>
   replica_server co epoch rid addrs t0 envs = (tr @ [LogException e, DumpStats], Returned)"
  by (simp add: replica_server_def ReplicaServer_main_def ReplicaServer_connect_def)

text \<open>
  C7, as the code has it. \<open>main\<close> catches nothing but the ZMQError that ends
  the non-blocking receives. When the handling of a message of the batch
  raises, the packets after it are not handled, \<open>execute_pending\<close> is not
  called, and \<open>main\<close> ends with that exception whatever input would have
  followed; \<open>replica_server\<close> then logs the exception, dumps the profile and
  returns. The loop goes on only while the handlers return normally.
\<close>

theorem handler_exception_ends_main:
  assumes wait: "check_timeouts_minimum_wait co r = Inr (mw, r1)"
      and ticked: "tick_phase co loc env r1 = (ticking, Inr (ltt, r2))"
      and ready: "poll_ready env"
      and queue: "inbound env = ms @ m # ms'" and frames: "[] \<notin> set (inbound env)"
      and handled: "dispatch co (map last ms) r2 = (tr_ms, Inr r3)"
      and raises: "receive_packet co (last m) r3 = Inl x"
  shows "main_loop co (env # envs) loc r =
           ([MinimumWait, Poll (poll_wait (seconds_per_tick r1) (poll_delta loc) mw * 1000)]
              @ ticking @ map RecvNoblock (inbound env) @ [RecvWouldBlock]
              @ map ReceivePacket (map last ms) @ [ReceivePacket (last m)],
            Terminated (Foreign x))
       \<and> (\<forall>epoch rid addrs rs t0.
            ReplicaServer_init co epoch rid addrs = Inr rs \<and> replica rs = r
              \<and> loc = \<lparr>last_tick_time = t0, poll_delta = 0, last_tick = ticks r\<rparr> \<longrightarrow>
            replica_server co epoch rid addrs t0 (env # envs) =
              ([MinimumWait, Poll (poll_wait (seconds_per_tick r1) (poll_delta loc) mw * 1000)]
                 @ ticking @ map RecvNoblock (inbound env) @ [RecvWouldBlock]
                 @ map ReceivePacket (map last ms) @ [ReceivePacket (last m)]
                 @ [LogException (Foreign x), DumpStats],
               Returned))"
proof -
  let ?tr = "[MinimumWait, Poll (poll_wait (seconds_per_tick r1) (poll_delta loc) mw * 1000)]
              @ ticking @ map RecvNoblock (inbound env) @ [RecvWouldBlock]
              @ map ReceivePacket (map last ms) @ [ReceivePacket (last m)]"
  have disp: "dispatch co (map last (inbound env)) r2 =
                (map ReceivePacket (map last ms) @ [ReceivePacket (last m)], Inl (Foreign x))"
    using dispatch_raises[OF handled raises, of "map last ms'"] by (simp add: queue)
  have pkt: "packet_phase co env r2 =
               (map RecvNoblock (inbound env) @ [RecvWouldBlock]
                  @ map ReceivePacket (map last ms) @ [ReceivePacket (last m)],
                Inl (Foreign x))"
    using ready by (simp add: packet_phase_def recv_all_well_formed[OF frames] disp then_run_def)
  have iter: "main_iteration co loc r env = (?tr, Inl (Foreign x))"
    by (simp add: main_iteration_def wait ticked pkt then_run_def call_def)
  then have loop: "main_loop co (env # envs) loc r = (?tr, Terminated (Foreign x))"
    by simp
  have server: "replica_server co epoch rid addrs t0 (env # envs) =
                  (?tr @ [LogException (Foreign x), DumpStats], Returned)"
    if "ReplicaServer_init co epoch rid addrs = Inr rs" "replica rs = r"
       "loc = \<lparr>last_tick_time = t0, poll_delta = 0, last_tick = ticks r\<rparr>"
    for epoch rid addrs rs t0
    using replica_server_logs[OF that(1), of "env # envs" t0 ?tr "Foreign x"] loop that(2,3)
    by simp
  from loop server show ?thesis
    by (simp del: main_loop.simps)
qed


lemma sample_init:
  "ReplicaServer_init sample_collaborators 0 1 replicas =
     Inr \<lparr>server_peer_addr = replicas, bound = ''tcp://0.0.0.0:60001'',
          socket_identity = 1, router_handover = 1, connected = [],
          state_args = \<lparr>channel_arg = (), epoch_arg = 0, replica_id_arg = 1,
                         peers_arg_4 = {1, 2, 3, 4, 5}, peers_arg_5 = {1, 2, 3, 4, 5},
                         flag_arg_6 = True, number_arg_7 = 5\<rparr>,
          replica = sample_replica\<rparr>"
  by (simp add: ReplicaServer_init_def sample_collaborators_def sample_replica_def replicas_def)

lemma sample_iteration_malformed:
  "main_iteration sample_collaborators sample_locals sample_replica env_malformed =
     ([MinimumWait, Poll 1000,
       RecvNoblock [''2'', ''a''], RecvNoblock [''3'', ''malformed''], RecvNoblock [''2'', ''c''],
       RecvWouldBlock, ReceivePacket ''a'', ReceivePacket ''malformed''],
      Inl (Foreign ''DecodeError''))"
  by (simp add: main_iteration_def sample_collaborators_def sample_locals_def sample_replica_def
        env_malformed_def tick_phase_def packet_phase_def print_stats_def poll_wait_def
        then_run_def call_def done_run_def)

text \<open>
  The sample handler raises on the second packet of the batch: the loop ends
  there, with the third packet and the next iteration's packet unhandled.
\<close>

theorem handler_exception_ends_main_witness:
  "main_loop sample_collaborators [env_malformed, env_later] sample_locals sample_replica =
     ([MinimumWait, Poll 1000,
       RecvNoblock [''2'', ''a''], RecvNoblock [''3'', ''malformed''], RecvNoblock [''2'', ''c''],
       RecvWouldBlock, ReceivePacket ''a'', ReceivePacket ''malformed''],
      Terminated (Foreign ''DecodeError''))"
proof -
  have wait: "check_timeouts_minimum_wait sample_collaborators sample_replica
                = Inr (None, sample_replica)"
    by (simp add: sample_collaborators_def)
  have ticked: "tick_phase sample_collaborators sample_locals env_malformed sample_replica
                  = ([], Inr (0, sample_replica))"
    by (simp add: tick_phase_def sample_locals_def sample_replica_def env_malformed_def done_run_def)
  have ready: "poll_ready env_malformed"
    by (simp add: env_malformed_def)
  have queue: "inbound env_malformed = [[''2'', ''a'']] @ [''3'', ''malformed''] # [[''2'', ''c'']]"
    by (simp add: env_malformed_def)
  have frames: "[] \<notin> set (inbound env_malformed)"
    by (simp add: env_malformed_def)
  have handled: "dispatch sample_collaborators (map last [[''2'', ''a'']]) sample_replica
                   = ([ReceivePacket ''a''], Inr (sample_replica\<lparr>rest := [''a'']\<rparr>))"
    by (simp add: sample_collaborators_def sample_replica_def then_run_def call_def done_run_def)
  have raises: "receive_packet sample_collaborators (last [''3'', ''malformed''])
                   (sample_replica\<lparr>rest := [''a'']\<rparr>) = Inl ''DecodeError''"
    by (simp add: sample_collaborators_def)
  from handler_exception_ends_main [OF wait ticked ready queue frames handled raises,
          THEN conjunct1, of "[env_later]"]
  show ?thesis
    by (simp add: env_malformed_def poll_wait_def sample_replica_def sample_locals_def
          del: main_loop.simps)
qed

text \<open>
  The loop does not continue after a handler has raised: the server process
  of the sample replica logs the exception and returns, although a further
  iteration with a packet was on offer.
\<close>

theorem handler_exception_counterexample:
  "replica_server sample_collaborators 0 1 replicas 0 [env_malformed, env_later] =
     ([MinimumWait, Poll 1000,
       RecvNoblock [''2'', ''a''], RecvNoblock [''3'', ''malformed''], RecvNoblock [''2'', ''c''],
       RecvWouldBlock, ReceivePacket ''a'', ReceivePacket ''malformed'',
       LogException (Foreign ''DecodeError''), DumpStats],
      Returned)"
proof -
  have "main_loop sample_collaborators [env_malformed, env_later]
          \<lparr>last_tick_time = 0, poll_delta = 0, last_tick = ticks sample_replica\<rparr> sample_replica =
     ([MinimumWait, Poll 1000,
       RecvNoblock [''2'', ''a''], RecvNoblock [''3'', ''malformed''], RecvNoblock [''2'', ''c''],
       RecvWouldBlock, ReceivePacket ''a'', ReceivePacket ''malformed''],
      Terminated (Foreign ''DecodeError''))"
    using sample_iteration_malformed
    by (simp add: sample_locals_def sample_replica_def)
  from replica_server_logs [OF sample_init, simplified, OF this] show ?thesis
    by simp
qed

text \<open>
  C2, as the code has it. The constructor takes the context, the epoch, the
  replica id and the addresses, and nothing else. Its state is built from the
  epoch, the replica id, the set of peer ids (passed twice) and the literals
  \<open>True\<close> and \<open>5\<close>; no seconds per tick is passed. So two servers built
  with the same epoch and id over the same peer ids have the same state
  arguments and the same replica, whatever else the caller chose.
\<close>

theorem ReplicaServer_fixed_tuning:
  assumes "ReplicaServer_init co epoch rid addrs = Inr rs"
  shows "state_args rs =
           \<lparr>channel_arg = (), epoch_arg = epoch, replica_id_arg = rid,
            peers_arg_4 = fst ` set addrs, peers_arg_5 = fst ` set addrs,
            flag_arg_6 = True, number_arg_7 = 5\<rparr>
       \<and> new_replica co (state_args rs) = Inr (replica rs)
       \<and> (\<forall>addrs' rs'. fst ` set addrs' = fst ` set addrs
              \<and> ReplicaServer_init co epoch rid addrs' = Inr rs' \<longrightarrow>
            state_args rs' = state_args rs \<and> replica rs' = replica rs)"
proof -
  from assms have args: "state_args rs =
           \<lparr>channel_arg = (), epoch_arg = epoch, replica_id_arg = rid,
            peers_arg_4 = fst ` set addrs, peers_arg_5 = fst ` set addrs,
            flag_arg_6 = True, number_arg_7 = 5\<rparr>"
    and made: "new_replica co (state_args rs) = Inr (replica rs)"
    by (auto simp: ReplicaServer_init_def Let_def split: option.splits sum.splits)
  have same: "state_args rs' = state_args rs \<and> replica rs' = replica rs"
    if "fst ` set addrs' = fst ` set addrs" "ReplicaServer_init co epoch rid addrs' = Inr rs'"
    for addrs' rs'
  proof -
    from that(2) have "state_args rs' =
           \<lparr>channel_arg = (), epoch_arg = epoch, replica_id_arg = rid,
            peers_arg_4 = fst ` set addrs', peers_arg_5 = fst ` set addrs',
            flag_arg_6 = True, number_arg_7 = 5\<rparr>"
      and "new_replica co (state_args rs') = Inr (replica rs')"
      by (auto simp: ReplicaServer_init_def Let_def split: option.splits sum.splits)
    with args made that(1) show ?thesis by simp
  qed
  from args made same show ?thesis by blast
qed

text \<open>
  Replica 1 of the five test replicas.
\<close>

theorem ReplicaServer_fixed_tuning_witness:
  "ReplicaServer_init sample_collaborators 0 1 replicas =
     Inr \<lparr>server_peer_addr = replicas, bound = ''tcp://0.0.0.0:60001'',
          socket_identity = 1, router_handover = 1, connected = [],
          state_args = \<lparr>channel_arg = (), epoch_arg = 0, replica_id_arg = 1,
                         peers_arg_4 = {1, 2, 3, 4, 5}, peers_arg_5 = {1, 2, 3, 4, 5},
                         flag_arg_6 = True, number_arg_7 = 5\<rparr>,
          replica = sample_replica\<rparr>
   \<and> new_replica sample_collaborators
        \<lparr>channel_arg = (), epoch_arg = 0, replica_id_arg = 1,
         peers_arg_4 = {1, 2, 3, 4, 5}, peers_arg_5 = {1, 2, 3, 4, 5},
         flag_arg_6 = True, number_arg_7 = 5\<rparr> = Inr sample_replica"
proof -
  from ReplicaServer_fixed_tuning [OF sample_init, THEN conjunct2, THEN conjunct1]
  have "new_replica sample_collaborators
        \<lparr>channel_arg = (), epoch_arg = 0, replica_id_arg = 1,
         peers_arg_4 = {1, 2, 3, 4, 5}, peers_arg_5 = {1, 2, 3, 4, 5},
         flag_arg_6 = True, number_arg_7 = 5\<rparr> = Inr sample_replica"
    by simp
  with sample_init show ?thesis
    by (intro conjI)
qed

text \<open>
  No call of the constructor passes \<open>False\<close> or the number 3 on to the
  state, or two different sets of peers.
\<close>

theorem ReplicaServer_tuning_counterexample:
  "\<not> (\<exists>(co :: unit collaborators) epoch rid addrs rs.
         ReplicaServer_init co epoch rid addrs = Inr rs
       \<and> (flag_arg_6 (state_args rs) = False \<or> number_arg_7 (state_args rs) = 3
          \<or> peers_arg_4 (state_args rs) \<noteq> peers_arg_5 (state_args rs)))"
  by (auto simp: ReplicaServer_init_def Let_def split: option.splits sum.splits)


end
